theory Spec2Isabelle
  imports Complex_Main
begin

unbundle bit_operations_syntax

section \<open>Python values shared by the three modules\<close>

text \<open>
  Python integers are unbounded: they are \<open>int\<close>. The exceptions the modules can meet
  at the places they guard with \<^verbatim>\<open>except Exception\<close> are all subclasses of
  \<^verbatim>\<open>Exception\<close>; \<open>pyerr\<close> names the ones the model produces itself
  (\<open>IndexError\<close> from indexing a tuple that is too short, \<open>AttributeError\<close> from
  calling a method on \<^verbatim>\<open>None\<close>, \<open>ValueError\<close> from \<^verbatim>\<open>int()\<close> and
  \<^verbatim>\<open>float()\<close> on a malformed string) and the ones a collaborator raises
  (\<open>OSError\<close>, \<open>RuntimeError\<close>).
\<close>

datatype pyerr = IndexError | AttributeError | ValueError | OSError | RuntimeError

text \<open>
  Python floats are kept abstract: a type variable \<open>'f\<close>, with the platform's
  operations passed in a record, so that nothing proved below rests on an algebraic law
  that floating-point arithmetic does not have. The two string parsers of the platform
  travel in the same record.
  \<^item> \<open>int_mul raw scale\<close> is \<^verbatim>\<open>raw * scale\<close> for an integer \<open>raw\<close> and a float
    \<open>scale\<close> (total on the 16-bit register values the transport delivers);
  \<^item> \<open>float_mul f scale\<close> is \<^verbatim>\<open>f * scale\<close> for two floats;
  \<^item> \<open>unpack_f32 b\<close> is \<^verbatim>\<open>struct.unpack('!f', struct.pack('!I', b))[0]\<close> for
    \<open>0 \<le> b < 2 ^ 32\<close>;
  \<^item> \<open>float_lit q\<close> is the float a literal such as \<^verbatim>\<open>0.1\<close> or \<^verbatim>\<open>float(2)\<close>
    denotes;
  \<^item> \<open>float_add\<close>, \<open>float_sub\<close>, \<open>float_less\<close>, \<open>float_le\<close> are \<^verbatim>\<open>+\<close>,
    \<^verbatim>\<open>-\<close>, \<^verbatim>\<open><\<close> and \<^verbatim>\<open><=\<close> on floats (\<^verbatim>\<open>a >= b\<close> is \<open>float_le b a\<close>);
  \<^item> \<open>float_int x\<close> is \<^verbatim>\<open>int(x)\<close> and \<open>float_bool x\<close> is the truth value of
    \<open>x\<close>, both on the finite readings of the monotonic clock;
  \<^item> \<open>int_of_str\<close> and \<open>float_of_str\<close> are \<^verbatim>\<open>int(s)\<close> and \<^verbatim>\<open>float(s)\<close> on a
    string, \<open>None\<close> where Python raises \<^verbatim>\<open>ValueError\<close>.
\<close>

record 'f pyops =
  int_mul :: "int \<Rightarrow> 'f \<Rightarrow> 'f"
  float_mul :: "'f \<Rightarrow> 'f \<Rightarrow> 'f"
  unpack_f32 :: "int \<Rightarrow> 'f"
  float_lit :: "rat \<Rightarrow> 'f"
  float_add :: "'f \<Rightarrow> 'f \<Rightarrow> 'f"
  float_sub :: "'f \<Rightarrow> 'f \<Rightarrow> 'f"
  float_less :: "'f \<Rightarrow> 'f \<Rightarrow> bool"
  float_le :: "'f \<Rightarrow> 'f \<Rightarrow> bool"
  float_int :: "'f \<Rightarrow> int"
  float_bool :: "'f \<Rightarrow> bool"
  int_of_str :: "string \<Rightarrow> int option"
  float_of_str :: "string \<Rightarrow> 'f option"

text \<open>
  An instance to evaluate the definitions on concrete inputs: exact rational arithmetic,
  and the IEEE-754 binary32 value of a finite bit pattern (sign bit 31, exponent bits
  30..23, fraction bits 22..0). The patterns of infinities and NaN (exponent 255) have no
  rational value and are sent to 0 here. Its parsers read an unsigned decimal integer
  and nothing else. No theorem below depends on this instance except the closed examples
  that name it.
\<close>

definition binary32_value :: "int \<Rightarrow> rat" where
  "binary32_value b =
     (let sgn = (if bit b 31 then - 1 else 1 :: rat);
          e = take_bit 8 (drop_bit 23 b);
          m = take_bit 23 b
      in if e = 255 then 0
         else if e = 0 then sgn * of_int m / 2 ^ 149
         else if e < 150 then sgn * of_int (2 ^ 23 + m) / 2 ^ nat (150 - e)
         else sgn * of_int (2 ^ 23 + m) * 2 ^ nat (e - 150))"

definition digit_val :: "char \<Rightarrow> nat option" where
  "digit_val c = (let n = (of_char c :: nat) in if 48 \<le> n \<and> n \<le> 57 then Some (n - 48) else None)"

fun decimal_acc :: "nat \<Rightarrow> string \<Rightarrow> nat option" where
  "decimal_acc acc [] = Some acc"
| "decimal_acc acc (c # cs) =
     (case digit_val c of None \<Rightarrow> None | Some d \<Rightarrow> decimal_acc (10 * acc + d) cs)"

definition decimal :: "string \<Rightarrow> nat option" where
  "decimal s = (if s = [] then None else decimal_acc 0 s)"

definition exact_ops :: "rat pyops" where
  "exact_ops =
     \<lparr> int_mul = (\<lambda>i s. of_int i * s), float_mul = (\<lambda>a b. a * b),
       unpack_f32 = binary32_value, float_lit = (\<lambda>q. q),
       float_add = (\<lambda>a b. a + b), float_sub = (\<lambda>a b. a - b),
       float_less = (\<lambda>a b. a < b), float_le = (\<lambda>a b. a \<le> b),
       float_int = (\<lambda>x. if 0 \<le> x then \<lfloor>x\<rfloor> else \<lceil>x\<rceil>), float_bool = (\<lambda>x. x \<noteq> 0),
       int_of_str = (\<lambda>s. map_option int (decimal s)),
       float_of_str = (\<lambda>s. map_option of_nat (decimal s)) \<rparr>"

section \<open>Register decoder (rs485\_sensor.py, \_decode\_vals)\<close>

text \<open>
  \<^verbatim>\<open>vals[i]\<close> on the tuple the transport returned: \<open>IndexError\<close> when the tuple is too
  short. The elements are Python integers already, so \<^verbatim>\<open>int(vals[i])\<close> is the element.
\<close>

definition vals_at :: "int list \<Rightarrow> nat \<Rightarrow> pyerr + int" where
  "vals_at vals i = (if i < length vals then Inr (vals ! i) else Inl IndexError)"

text \<open>
  The decoder, branch by branch in the order of the source. The parameter \<open>signed\<close> is
  received and never read, as in the source. \<^verbatim>\<open>x & 0xFFFF\<close> on Python's unbounded
  two's-complement integers is \<open>AND\<close> on \<open>int\<close>; \<^verbatim>\<open>(msw << 16) | lsw\<close> is
  \<open>push_bit 16 msw OR lsw\<close>.
\<close>

definition decode_vals ::
  "'f pyops \<Rightarrow> int list \<Rightarrow> string \<Rightarrow> bool \<Rightarrow> 'f \<Rightarrow> pyerr + (int \<times> 'f)" where
  "decode_vals F vals fmt signed scale =
     (if fmt = ''int16'' then
        (case vals_at vals 0 of Inl e \<Rightarrow> Inl e
         | Inr raw \<Rightarrow> Inr (raw, int_mul F raw scale))
      else if fmt = ''uint16'' then
        (case vals_at vals 0 of Inl e \<Rightarrow> Inl e
         | Inr v \<Rightarrow> (let raw = v AND 0xFFFF in Inr (raw, int_mul F raw scale)))
      else if fmt = ''float32'' then
        (case vals_at vals 0 of Inl e \<Rightarrow> Inl e
         | Inr v0 \<Rightarrow>
            (case vals_at vals 1 of Inl e \<Rightarrow> Inl e
             | Inr v1 \<Rightarrow>
                (let msw = v0 AND 0xFFFF; lsw = v1 AND 0xFFFF;
                     bin32 = push_bit 16 msw OR lsw;
                     f = unpack_f32 F bin32
                 in Inr (bin32, float_mul F f scale))))
      else if fmt = ''float32_swapped'' then
        (case vals_at vals 0 of Inl e \<Rightarrow> Inl e
         | Inr v0 \<Rightarrow>
            (case vals_at vals 1 of Inl e \<Rightarrow> Inl e
             | Inr v1 \<Rightarrow>
                (let lsw = v0 AND 0xFFFF; msw = v1 AND 0xFFFF;
                     bin32 = push_bit 16 msw OR lsw;
                     f = unpack_f32 F bin32
                 in Inr (bin32, float_mul F f scale))))
      else
        (case vals_at vals 0 of Inl e \<Rightarrow> Inl e
         | Inr raw \<Rightarrow> Inr (raw, int_mul F raw scale)))"

section \<open>Strings and configuration values\<close>

text \<open>
  \<^verbatim>\<open>str.strip()\<close>, \<^verbatim>\<open>str.lower()\<close> and \<^verbatim>\<open>str.upper()\<close> on ASCII text, which is what
  the settings hold.
\<close>

definition is_space :: "char \<Rightarrow> bool" where
  "is_space c = (of_char c \<in> set [32, 9, 10, 11, 12, 13 :: nat])"

definition strip :: "string \<Rightarrow> string" where
  "strip s = rev (dropWhile is_space (rev (dropWhile is_space s)))"

definition lower_char :: "char \<Rightarrow> char" where
  "lower_char c = (let n = (of_char c :: nat) in if 65 \<le> n \<and> n \<le> 90 then char_of (n + 32) else c)"

definition upper_char :: "char \<Rightarrow> char" where
  "upper_char c = (let n = (of_char c :: nat) in if 97 \<le> n \<and> n \<le> 122 then char_of (n - 32) else c)"

definition lower :: "string \<Rightarrow> string" where
  "lower s = map lower_char s"

definition upper :: "string \<Rightarrow> string" where
  "upper s = map upper_char s"

definition startswith :: "string \<Rightarrow> string \<Rightarrow> bool" where
  "startswith s p = (take (length p) s = p)"

text \<open>
  \<^verbatim>\<open>_parse_bool(v, default)\<close>. The argument is what \<^verbatim>\<open>os.getenv\<close> returned: a string
  or \<^verbatim>\<open>None\<close>, and \<^verbatim>\<open>str(None)\<close> is the text \<^verbatim>\<open>None\<close>.
\<close>

definition parse_bool :: "string option \<Rightarrow> bool \<Rightarrow> bool" where
  "parse_bool v default' =
     (let s = lower (strip (case v of None \<Rightarrow> ''None'' | Some x \<Rightarrow> x))
      in if s \<in> set [''1'', ''true'', ''yes'', ''on''] then True
         else if s \<in> set [''0'', ''false'', ''no'', ''off''] then False
         else default')"

text \<open>
  \<^verbatim>\<open>os.getenv(k) or d\<close>: the default stands in for \<^verbatim>\<open>None\<close> and for the empty string.
  \<open>int_or\<close> is \<^verbatim>\<open>int(os.getenv(k) or d)\<close> with an integer default and \<open>float_or\<close> is
  \<^verbatim>\<open>float(os.getenv(k) or d)\<close> with a numeric default; both raise \<open>ValueError\<close> on a
  string the parser refuses.
\<close>

definition str_or :: "string option \<Rightarrow> string \<Rightarrow> string" where
  "str_or v d = (case v of None \<Rightarrow> d | Some s \<Rightarrow> if s = [] then d else s)"

definition int_or :: "'f pyops \<Rightarrow> string option \<Rightarrow> int \<Rightarrow> pyerr + int" where
  "int_or P v d =
     (case v of None \<Rightarrow> Inr d
      | Some s \<Rightarrow> if s = [] then Inr d
                 else (case int_of_str P s of None \<Rightarrow> Inl ValueError | Some n \<Rightarrow> Inr n))"

definition float_or :: "'f pyops \<Rightarrow> string option \<Rightarrow> 'f \<Rightarrow> pyerr + 'f" where
  "float_or P v d =
     (case v of None \<Rightarrow> Inr d
      | Some s \<Rightarrow> if s = [] then Inr d
                 else (case float_of_str P s of None \<Rightarrow> Inl ValueError | Some x \<Rightarrow> Inr x))"

section \<open>Sensor poller (rs485\_sensor.py)\<close>

text \<open>
  The module's globals, one field each, under the source's names without the leading
  underscore. \<open>serial\<close> is \<^verbatim>\<open>None\<close> or the transport object, which the model
  identifies by the baud rate it was opened with.
\<close>

datatype serial_port = Serial int

record 'f sensor =
  enabled :: bool
  serial :: "serial_port option"
  slave_addr :: int
  reg_addr :: int
  use_input_regs :: bool
  signed :: bool
  scale :: 'f
  format :: string
  qty :: int
  hum_enable :: bool
  hum_reg :: int
  hum_signed :: bool
  hum_scale :: 'f
  hum_format :: string
  hum_qty :: int
  poll_s :: 'f
  last_value :: "'f option"
  last_raw :: "int option"
  last_ok :: bool
  last_ts :: 'f
  next_poll :: 'f
  err_count :: int
  last_hum :: "'f option"
  last_hum_raw :: "int option"
  last_hum_ok :: bool

text \<open>The values the module's globals are given when it is imported (lines 15 to 43).\<close>

definition initial_sensor :: "'f pyops \<Rightarrow> 'f sensor" where
  "initial_sensor P =
     \<lparr> enabled = False, serial = None, slave_addr = 1, reg_addr = 0,
       use_input_regs = True, signed = False, scale = float_lit P (1 / 10),
       format = ''int16'', qty = 1,
       hum_enable = False, hum_reg = 1, hum_signed = False,
       hum_scale = float_lit P (1 / 10), hum_format = ''int16'', hum_qty = 1,
       poll_s = float_lit P 2,
       last_value = None, last_raw = None, last_ok = False, last_ts = float_lit P 0,
       next_poll = float_lit P 0, err_count = 0,
       last_hum = None, last_hum_raw = None, last_hum_ok = False \<rparr>"

text \<open>
  What one call of \<^verbatim>\<open>process()\<close> meets outside the module: the settings, the outcome
  of the \<^verbatim>\<open>Serial(...)\<close> constructor should it be called (\<open>None\<close>: it returns; \<open>Some e\<close>:
  it raises \<open>e\<close>), the reading of \<^verbatim>\<open>time.monotonic()\<close> (a call of \<^verbatim>\<open>process()\<close>
  reads the clock at most once), and the transport's answers to the first and to the
  second register read should they be issued (\<open>Inl e\<close>: the read raises \<open>e\<close>;
  \<open>Inr vals\<close>: it returns the tuple \<open>vals\<close>). A failure is an exception of class
  \<^verbatim>\<open>Exception\<close>, the class the source's handlers catch.
\<close>

record 'f sensor_env =
  getenv :: "string \<Rightarrow> string option"
  serial_ctor :: "pyerr option"
  monotonic :: 'f
  primary_read :: "pyerr + int list"
  hum_read :: "pyerr + int list"

text \<open>
  What the module does to the serial bus, in order: opening the port with a baud rate,
  and register reads with (slave address, starting address, quantity, signed).
\<close>

datatype bus_event =
    Open_serial int
  | Read_input_registers int int int bool
  | Read_holding_registers int int int bool

text \<open>The defaults a profile sets (lines 72 to 94 of \<^verbatim>\<open>_init\<close>).\<close>

record 'f defaults =
  d_func :: string
  d_reg :: int
  d_scale :: 'f
  d_fmt :: string
  d_qty :: int
  d_h_en :: bool
  d_h_reg :: int
  d_h_scale :: 'f
  d_h_fmt :: string
  d_h_qty :: int

definition profile_defaults :: "'f pyops \<Rightarrow> string \<Rightarrow> 'f defaults" where
  "profile_defaults P profile =
     (if profile = ''SN_HUTE'' then
        \<lparr> d_func = ''HREG'', d_reg = 1, d_scale = float_lit P (1 / 10), d_fmt = ''int16'',
          d_qty = 1, d_h_en = True, d_h_reg = 2, d_h_scale = float_lit P (1 / 10),
          d_h_fmt = ''int16'', d_h_qty = 1 \<rparr>
      else
        \<lparr> d_func = ''IREG'', d_reg = 0, d_scale = float_lit P (1 / 10), d_fmt = ''int16'',
          d_qty = 1, d_h_en = False, d_h_reg = 1, d_h_scale = float_lit P (1 / 10),
          d_h_fmt = ''int16'', d_h_qty = 1 \<rparr>)"

text \<open>
  The humidity settings of \<^verbatim>\<open>_init\<close> (lines 111 to 122), read only when the humidity
  channel is enabled. \<open>Inl s\<close>: an exception left the block, no handler inside
  \<^verbatim>\<open>_init\<close>'s body having caught it, after the assignments recorded in \<open>s\<close>.
\<close>

definition init_humidity ::
  "'f pyops \<Rightarrow> (string \<Rightarrow> string option) \<Rightarrow> 'f defaults \<Rightarrow> 'f sensor \<Rightarrow> 'f sensor + 'f sensor" where
  "init_humidity P env d s =
     (if hum_enable s then
        (case int_or P (env ''RS485_SENSOR_HUM_REG'') (d_h_reg d) of
           Inl e \<Rightarrow> Inl s
         | Inr r \<Rightarrow>
            (let hfmt = lower (strip (str_or (env ''RS485_SENSOR_HUM_FORMAT'') (d_h_fmt d)))
             in Inr (s\<lparr> hum_reg := r,
                        hum_signed := parse_bool (env ''RS485_SENSOR_HUM_SIGNED'') False,
                        hum_format := hfmt,
                        hum_qty :=
                          (case int_or P (env ''RS485_SENSOR_HUM_QTY'')
                                  (if startswith hfmt ''float32'' then 2 else d_h_qty d) of
                             Inl e \<Rightarrow> 1 | Inr q \<Rightarrow> q),
                        hum_scale :=
                          (case float_or P (env ''RS485_SENSOR_HUM_SCALE'') (d_h_scale d) of
                             Inl e \<Rightarrow> float_lit P (1 / 10) | Inr x \<Rightarrow> x) \<rparr>)))
      else Inr s)"

text \<open>
  The settings of \<^verbatim>\<open>_init\<close> from the profile to the baud rate (lines 71 to 129), after
  \<^verbatim>\<open>_enabled = True\<close>. The assignments are made one after the other, so an exception
  leaves the globals assigned so far in place: \<open>Inl s\<close> carries them. \<open>Inr (s, baud)\<close>:
  the block ran to its end.
\<close>

definition init_settings ::
  "'f pyops \<Rightarrow> (string \<Rightarrow> string option) \<Rightarrow> 'f sensor \<Rightarrow> 'f sensor + ('f sensor \<times> int)" where
  "init_settings P env s0 =
     (let profile = upper (strip (str_or (env ''RS485_SENSOR_PROFILE'') ''GENERIC''));
          d = profile_defaults P profile
      in case int_or P (env ''RS485_SENSOR_ADDR'') 1 of
           Inl e \<Rightarrow> Inl s0
         | Inr a \<Rightarrow>
      (let s1 = s0\<lparr> slave_addr := a \<rparr>
       in case int_or P (env ''RS485_SENSOR_REG'') (d_reg d) of
            Inl e \<Rightarrow> Inl s1
          | Inr r \<Rightarrow>
      (let func = upper (strip (str_or (env ''RS485_SENSOR_FUNC'') (d_func d)));
           fmt = lower (strip (str_or (env ''RS485_SENSOR_FORMAT'') (d_fmt d)));
           s2 = s1\<lparr> reg_addr := r,
                    use_input_regs := (func \<noteq> ''HREG''),
                    signed := parse_bool (env ''RS485_SENSOR_SIGNED'') False,
                    format := fmt,
                    qty :=
                      (case int_or P (env ''RS485_SENSOR_QTY'')
                              (if startswith fmt ''float32'' then 2 else d_qty d) of
                         Inl e \<Rightarrow> 1 | Inr q \<Rightarrow> q),
                    scale :=
                      (case float_or P (env ''RS485_SENSOR_SCALE'') (d_scale d) of
                         Inl e \<Rightarrow> float_lit P (1 / 10) | Inr x \<Rightarrow> x),
                    hum_enable := parse_bool (env ''RS485_SENSOR_HUM_ENABLE'') (d_h_en d) \<rparr>
       in case init_humidity P env d s2 of
            Inl s3 \<Rightarrow> Inl s3
          | Inr s3 \<Rightarrow>
      (let s4 = s3\<lparr> poll_s :=
                      (case float_or P (env ''RS485_SENSOR_POLL_SEC'') (float_lit P 2) of
                         Inl e \<Rightarrow> float_lit P 2
                       | Inr x \<Rightarrow> if float_less P x (float_lit P (1 / 5))
                                  then float_lit P (1 / 5) else x) \<rparr>
       in case int_or P
                 (case env ''RS485_SENSOR_BAUD'' of
                    None \<Rightarrow> env ''MODBUS_RTU_BAUDRATE''
                  | Some b \<Rightarrow> if b = [] then env ''MODBUS_RTU_BAUDRATE'' else Some b)
                 9600 of
            Inl e \<Rightarrow> Inl s4
          | Inr baud \<Rightarrow> Inr (s4, baud)))))"

text \<open>
  \<^verbatim>\<open>_init()\<close>. The two gates return with the poller disabled. Past them
  \<^verbatim>\<open>_enabled = True\<close> is assigned first; the handler of the enclosing \<^verbatim>\<open>try\<close> only
  assigns \<^verbatim>\<open>_serial = None\<close>, so \<open>enabled\<close> stays true when the settings or the
  constructor raise.
\<close>

definition init :: "'f pyops \<Rightarrow> 'f sensor_env \<Rightarrow> 'f sensor \<Rightarrow> 'f sensor \<times> bus_event list" where
  "init P E s =
     (if getenv E ''MODBUS_MODE'' \<noteq> Some ''TCP'' then (s\<lparr> enabled := False \<rparr>, [])
      else if \<not> parse_bool (getenv E ''RS485_SENSOR_ENABLE'') False
        then (s\<lparr> enabled := False \<rparr>, [])
      else
        (case init_settings P (getenv E) (s\<lparr> enabled := True \<rparr>) of
           Inl s' \<Rightarrow> (s'\<lparr> serial := None \<rparr>, [])
         | Inr (s', baud) \<Rightarrow>
            (case serial_ctor E of
               Some e \<Rightarrow> (s'\<lparr> serial := None \<rparr>, [Open_serial baud])
             | None \<Rightarrow>
                (s'\<lparr> serial := Some (Serial baud), next_poll := monotonic E \<rparr>,
                 [Open_serial baud]))))"

text \<open>
  The register read both channels issue (lines 181 to 184 and 196 to 199): a method call
  on \<^verbatim>\<open>_serial\<close>, which raises \<open>AttributeError\<close> with nothing sent when \<^verbatim>\<open>_serial\<close> is
  \<^verbatim>\<open>None\<close>; otherwise the request goes out and \<open>answer\<close> is what the transport does.
\<close>

definition read_registers ::
  "'f sensor \<Rightarrow> int \<Rightarrow> int \<Rightarrow> bool \<Rightarrow> pyerr + int list \<Rightarrow> (pyerr + int list) \<times> bus_event list" where
  "read_registers s addr q sg answer =
     (case serial s of
        None \<Rightarrow> (Inl AttributeError, [])
      | Some port \<Rightarrow>
          (answer,
           [if use_input_regs s then Read_input_registers (slave_addr s) addr q sg
            else Read_holding_registers (slave_addr s) addr q sg]))"

text \<open>
  The body of the primary channel's \<^verbatim>\<open>try\<close> (lines 181 to 185): the read, then the
  decoder. \<open>Inl e\<close>: the body raised \<open>e\<close>.
\<close>

definition primary_attempt ::
  "'f pyops \<Rightarrow> 'f sensor_env \<Rightarrow> 'f sensor \<Rightarrow> (pyerr + (int \<times> 'f)) \<times> bus_event list" where
  "primary_attempt P E s =
     (case read_registers s (reg_addr s) (qty s) (signed s) (primary_read E) of
        (Inl e, ev) \<Rightarrow> (Inl e, ev)
      | (Inr vals, ev) \<Rightarrow> (decode_vals P vals (format s) (signed s) (scale s), ev))"

definition humidity_attempt ::
  "'f pyops \<Rightarrow> 'f sensor_env \<Rightarrow> 'f sensor \<Rightarrow> (pyerr + (int \<times> 'f)) \<times> bus_event list" where
  "humidity_attempt P E s =
     (case read_registers s (hum_reg s) (hum_qty s) (hum_signed s) (hum_read E) of
        (Inl e, ev) \<Rightarrow> (Inl e, ev)
      | (Inr hvals, ev) \<Rightarrow>
          (decode_vals P hvals (hum_format s) (hum_signed s) (hum_scale s), ev))"

text \<open>
  The primary channel's \<^verbatim>\<open>try\<close> with its handler (lines 180 to 192), and the humidity
  channel's (lines 194 to 205).
\<close>

definition process_primary ::
  "'f pyops \<Rightarrow> 'f sensor_env \<Rightarrow> 'f \<Rightarrow> 'f sensor \<Rightarrow> 'f sensor \<times> bus_event list" where
  "process_primary P E now s =
     (case primary_attempt P E s of
        (Inr (raw, val), ev) \<Rightarrow>
          (s\<lparr> last_raw := Some raw, last_value := Some val, last_ok := True, last_ts := now \<rparr>, ev)
      | (Inl e, ev) \<Rightarrow>
          (s\<lparr> err_count := err_count s + 1, last_ok := False \<rparr>, ev))"

definition process_humidity ::
  "'f pyops \<Rightarrow> 'f sensor_env \<Rightarrow> 'f sensor \<Rightarrow> 'f sensor \<times> bus_event list" where
  "process_humidity P E s =
     (if hum_enable s then
        (case humidity_attempt P E s of
           (Inr (hraw, hval), ev) \<Rightarrow>
             (s\<lparr> last_hum_raw := Some hraw, last_hum := Some hval, last_hum_ok := True \<rparr>, ev)
         | (Inl e, ev) \<Rightarrow> (s\<lparr> last_hum_ok := False \<rparr>, ev))
      else (s, []))"

text \<open>
  \<^verbatim>\<open>process()\<close>: the new globals and what was done on the bus. \<^verbatim>\<open>_init()\<close> is called
  only while \<^verbatim>\<open>_enabled\<close> is false and \<^verbatim>\<open>_serial\<close> is \<^verbatim>\<open>None\<close>.
\<close>

definition process :: "'f pyops \<Rightarrow> 'f sensor_env \<Rightarrow> 'f sensor \<Rightarrow> 'f sensor \<times> bus_event list" where
  "process P E s =
     (if \<not> enabled s then
        (if serial s = None then init P E s else (s, []))
      else
        (let now = monotonic E
         in if float_less P now (next_poll s) then (s, [])
            else
              (let s1 = s\<lparr> next_poll := float_add P now (poll_s s) \<rparr>;
                   (s2, ev1) = process_primary P E now s1;
                   (s3, ev2) = process_humidity P E s2
               in (s3, ev1 @ ev2))))"

text \<open>
  Successive calls of \<^verbatim>\<open>process()\<close>, one environment per call: the globals after the
  last call and everything done on the bus.
\<close>

fun process_calls ::
  "'f pyops \<Rightarrow> 'f sensor_env list \<Rightarrow> 'f sensor \<Rightarrow> 'f sensor \<times> bus_event list" where
  "process_calls P [] s = (s, [])"
| "process_calls P (E # Es) s =
     (case process P E s of
        (s', ev) \<Rightarrow> (case process_calls P Es s' of (s'', ev') \<Rightarrow> (s'', ev @ ev')))"

section \<open>Status documents\<close>

text \<open>
  The dictionaries the modules build, as JSON values: a dictionary is the list of its
  items in insertion order.
\<close>

datatype 'f json =
    JNull
  | JBool bool
  | JInt int
  | JFloat 'f
  | JStr string
  | JObj "(string \<times> 'f json) list"

definition opt_json :: "('a \<Rightarrow> 'f json) \<Rightarrow> 'a option \<Rightarrow> 'f json" where
  "opt_json j v = (case v of None \<Rightarrow> JNull | Some x \<Rightarrow> j x)"

definition member_of :: "'f json \<Rightarrow> string \<Rightarrow> 'f json option" where
  "member_of doc k = (case doc of JObj items \<Rightarrow> map_of items k | _ \<Rightarrow> None)"

fun at_path :: "'f json \<Rightarrow> string list \<Rightarrow> 'f json option" where
  "at_path doc [] = Some doc"
| "at_path doc (k # ks) =
     (case member_of doc k of None \<Rightarrow> None | Some d \<Rightarrow> at_path d ks)"

text \<open>\<^verbatim>\<open>get_status()\<close> of rs485\_sensor.py.\<close>

definition get_status :: "'f pyops \<Rightarrow> 'f sensor \<Rightarrow> 'f json" where
  "get_status P s =
     JObj
      [(''enabled'', JBool (enabled s)),
       (''ok'', JBool (last_ok s)),
       (''value_c'', opt_json JFloat (last_value s)),
       (''raw'', opt_json JInt (last_raw s)),
       (''last_update_s'',
          if float_bool P (last_ts s) then JInt (float_int P (last_ts s)) else JNull),
       (''errors'', JInt (err_count s)),
       (''slave_addr'', JInt (slave_addr s)),
       (''reg_addr'', JInt (reg_addr s)),
       (''func'', JStr (if use_input_regs s then ''IREG'' else ''HREG'')),
       (''scale'', JFloat (scale s)),
       (''format'', JStr (format s)),
       (''humidity'',
          JObj
           [(''enabled'', JBool (hum_enable s)),
            (''ok'', JBool (last_hum_ok s)),
            (''value_pct'', opt_json JFloat (last_hum s)),
            (''raw'', opt_json JInt (last_hum_raw s)),
            (''reg_addr'', JInt (hum_reg s)),
            (''scale'', JFloat (hum_scale s)),
            (''format'', JStr (hum_format s))])]"

section \<open>Main scheduler (main.py)\<close>

text \<open>
  What a subsystem's step can raise, as the loop's handlers tell it apart: an exception
  of class \<^verbatim>\<open>Exception\<close>, the operator's \<^verbatim>\<open>KeyboardInterrupt\<close>, or another
  exception outside \<^verbatim>\<open>Exception\<close> (\<^verbatim>\<open>SystemExit\<close>). The three steps are the
  collaborators' \<^verbatim>\<open>process()\<close> functions; the loop sees of each only whether it returns
  or raises.
\<close>

datatype raised = Exception pyerr | KeyboardInterrupt | SystemExit

datatype step_result = Returns | Raises raised

text \<open>
  What one iteration meets: the outcome of each step should it be called, and the two
  readings of \<^verbatim>\<open>time.monotonic()\<close> in the heartbeat (the one compared, and the one
  stored when the comparison holds). The watchdog feed, the clock and the indicator
  are primitives of the platform that do not raise.
\<close>

record 'f tick_env =
  modbus_step :: step_result
  web_step :: step_result
  sensor_step :: step_result
  clock_compared :: 'f
  clock_stored :: 'f

datatype event =
    Feed_watchdog
  | Modbus_process
  | Web_process
  | Sensor_process
  | Toggle_led
  | Print_stopping
  | Print_exception pyerr

text \<open>The loop's own variables: \<^verbatim>\<open>timestamp\<close> and the indicator \<^verbatim>\<open>Hal.led.value\<close>.\<close>

record 'f main_state =
  timestamp :: 'f
  led :: bool

text \<open>
  How an iteration ends: the loop goes on with the new variables, \<^verbatim>\<open>break\<close> leaves
  it, or an exception that no handler catches ends the program.
\<close>

datatype 'f tick_end = Continue "'f main_state" | Break | Uncaught raised

text \<open>
  The heartbeat and the second feed (lines 64 to 69): \<^verbatim>\<open>Hal.led.value ^= 1\<close> inverts
  the indicator.
\<close>

definition blink_and_feed :: "'f pyops \<Rightarrow> 'f tick_env \<Rightarrow> 'f main_state \<Rightarrow> event list \<times> 'f main_state" where
  "blink_and_feed P E st =
     (if float_le P (float_lit P (1 / 2)) (float_sub P (clock_compared E) (timestamp st))
      then ([Toggle_led, Feed_watchdog], st\<lparr> timestamp := clock_stored E, led := \<not> led st \<rparr>)
      else ([Feed_watchdog], st))"

text \<open>
  One iteration of \<^verbatim>\<open>while True\<close> (lines 39 to 69): the events in the order they
  happen, and how the iteration ends. The first \<^verbatim>\<open>try\<close> has two handlers,
  \<^verbatim>\<open>except KeyboardInterrupt\<close> with \<^verbatim>\<open>break\<close> and \<^verbatim>\<open>except Exception\<close> with a
  print; the other two have \<^verbatim>\<open>except Exception\<close> only.
\<close>

definition main_tick :: "'f pyops \<Rightarrow> 'f tick_env \<Rightarrow> 'f main_state \<Rightarrow> event list \<times> 'f tick_end" where
  "main_tick P E st =
     (case modbus_step E of
        Raises KeyboardInterrupt \<Rightarrow> ([Feed_watchdog, Modbus_process, Print_stopping], Break)
      | Raises SystemExit \<Rightarrow> ([Feed_watchdog, Modbus_process], Uncaught SystemExit)
      | m \<Rightarrow>
          (let ev1 = [Feed_watchdog, Modbus_process] @
                     (case m of Raises (Exception e) \<Rightarrow> [Print_exception e] | _ \<Rightarrow> [])
           in case web_step E of
                Raises KeyboardInterrupt \<Rightarrow> (ev1 @ [Web_process], Uncaught KeyboardInterrupt)
              | Raises SystemExit \<Rightarrow> (ev1 @ [Web_process], Uncaught SystemExit)
              | w \<Rightarrow>
                  (case sensor_step E of
                     Raises KeyboardInterrupt \<Rightarrow>
                       (ev1 @ [Web_process, Sensor_process], Uncaught KeyboardInterrupt)
                   | Raises SystemExit \<Rightarrow>
                       (ev1 @ [Web_process, Sensor_process], Uncaught SystemExit)
                   | r \<Rightarrow>
                       (case blink_and_feed P E st of
                          (ev2, st') \<Rightarrow>
                            (ev1 @ [Web_process, Sensor_process] @ ev2, Continue st')))))"

text \<open>
  The first iterations of the loop, one environment each. The loop has no exit of its
  own, so \<open>Continue\<close> after the last environment means it is still running.
\<close>

fun main_loop :: "'f pyops \<Rightarrow> 'f tick_env list \<Rightarrow> 'f main_state \<Rightarrow> event list \<times> 'f tick_end" where
  "main_loop P [] st = ([], Continue st)"
| "main_loop P (E # Es) st =
     (case main_tick P E st of
        (ev, Continue st') \<Rightarrow> (case main_loop P Es st' of (ev', r) \<Rightarrow> (ev @ ev', r))
      | (ev, Break) \<Rightarrow> (ev, Break)
      | (ev, Uncaught x) \<Rightarrow> (ev, Uncaught x))"

text \<open>A step that returns or raises an exception of class \<^verbatim>\<open>Exception\<close>.\<close>

definition caught :: "step_result \<Rightarrow> bool" where
  "caught r = (case r of Returns \<Rightarrow> True | Raises (Exception e) \<Rightarrow> True | Raises x \<Rightarrow> False)"

definition all_caught :: "'f tick_env \<Rightarrow> bool" where
  "all_caught E = (caught (modbus_step E) \<and> caught (web_step E) \<and> caught (sensor_step E))"

section \<open>Web control surface (web\_status.py)\<close>

subsection \<open>Output toggles\<close>

text \<open>
  The state a toggle route touches: the four outputs \<^verbatim>\<open>Hal.dout0.value\<close> to
  \<^verbatim>\<open>Hal.dout3.value\<close>, which are booleans, and the coil values the Modbus client
  holds by address. The coil addresses \<^verbatim>\<open>Modbus.DO0_ADD\<close> to \<^verbatim>\<open>Modbus.DO3_ADD\<close> are
  constants of a module that is not among the sources; they are parameters.
\<close>

record io_state =
  dout :: "nat \<Rightarrow> bool"
  coil :: "int \<Rightarrow> int option"

record coil_addresses =
  DO0_ADD :: int
  DO1_ADD :: int
  DO2_ADD :: int
  DO3_ADD :: int

text \<open>
  What a route meets: whether reading the output, writing it and \<^verbatim>\<open>set_coil\<close> raise
  (\<open>Some e\<close>) or succeed (\<open>None\<close>).
\<close>

record toggle_env =
  value_read :: "pyerr option"
  value_write :: "pyerr option"
  set_coil :: "pyerr option"

definition no_failure :: toggle_env where
  "no_failure = \<lparr> value_read = None, value_write = None, set_coil = None \<rparr>"

record response =
  body :: string
  content_type :: string

definition back_to_status :: response where
  "back_to_status =
     \<lparr> body = ''<!doctype html><meta http-equiv='refresh' content='0;url=/'><a href='/'>Back</a>'',
       content_type = ''text/html; charset=utf-8'' \<rparr>"

text \<open>
  The body the four routes share, for output \<open>n\<close> with coil address \<open>addr\<close>: the three
  statements of the \<^verbatim>\<open>try\<close> in order, each ending the block when it raises, and the
  response built after the handler whatever happened. Writing 0 or 1 to a boolean output
  stores false or true.
\<close>

definition toggle_output :: "nat \<Rightarrow> int \<Rightarrow> toggle_env \<Rightarrow> io_state \<Rightarrow> io_state \<times> response" where
  "toggle_output n addr E w =
     (let w' =
        (case value_read E of
           Some e \<Rightarrow> w
         | None \<Rightarrow>
            (let newv = (if dout w n then 0 else 1 :: int)
             in case value_write E of
                  Some e \<Rightarrow> w
                | None \<Rightarrow>
                   (let w1 = w\<lparr> dout := (dout w)(n := (newv \<noteq> 0)) \<rparr>
                    in case set_coil E of
                         Some e \<Rightarrow> w1
                       | None \<Rightarrow> w1\<lparr> coil := (coil w1)(addr \<mapsto> newv) \<rparr>)))
      in (w', back_to_status))"

definition do0_toggle :: "coil_addresses \<Rightarrow> toggle_env \<Rightarrow> io_state \<Rightarrow> io_state \<times> response" where
  "do0_toggle A E w = toggle_output 0 (DO0_ADD A) E w"

definition do1_toggle :: "coil_addresses \<Rightarrow> toggle_env \<Rightarrow> io_state \<Rightarrow> io_state \<times> response" where
  "do1_toggle A E w = toggle_output 1 (DO1_ADD A) E w"

definition do2_toggle :: "coil_addresses \<Rightarrow> toggle_env \<Rightarrow> io_state \<Rightarrow> io_state \<times> response" where
  "do2_toggle A E w = toggle_output 2 (DO2_ADD A) E w"

definition do3_toggle :: "coil_addresses \<Rightarrow> toggle_env \<Rightarrow> io_state \<Rightarrow> io_state \<times> response" where
  "do3_toggle A E w = toggle_output 3 (DO3_ADD A) E w"

text \<open>The coil value that mirrors an output state.\<close>

definition coil_of :: "bool \<Rightarrow> int" where
  "coil_of b = (if b then 1 else 0)"

subsection \<open>Status snapshot\<close>

text \<open>Decimal text of an integer, and the two-digit field \<^verbatim>\<open>{:02d}\<close>.\<close>

fun str_nat :: "nat \<Rightarrow> string" where
  "str_nat n =
     (if n < 10 then [char_of (48 + n)]
      else str_nat (n div 10) @ [char_of (48 + n mod 10)])"

definition str_int :: "int \<Rightarrow> string" where
  "str_int i = (if i < 0 then CHR ''-'' # str_nat (nat (- i)) else str_nat (nat i))"

definition pad2 :: "int \<Rightarrow> string" where
  "pad2 i = (let d = str_int i in if length d < 2 then CHR ''0'' # d else d)"

text \<open>\<^verbatim>\<open>_fmt_uptime(seconds)\<close>; \<^verbatim>\<open>//\<close> and \<^verbatim>\<open>%\<close> round down, as \<open>div\<close> and \<open>mod\<close> do.\<close>

definition fmt_uptime :: "int \<Rightarrow> string" where
  "fmt_uptime seconds =
     (let days = seconds div 86400;
          hours = (seconds mod 86400) div 3600;
          minutes = (seconds mod 3600) div 60;
          secs = seconds mod 60
      in if days \<noteq> 0
         then str_int days @ ''d '' @ pad2 hours @ '':'' @ pad2 minutes @ '':'' @ pad2 secs
         else pad2 hours @ '':'' @ pad2 minutes @ '':'' @ pad2 secs)"

text \<open>
  What \<^verbatim>\<open>_read_status()\<close> reads from its collaborators, each read with its outcome
  (\<open>Inl e\<close>: it raises \<open>e\<close>). \<open>eth\<close> and \<open>hostname\<close> are
  \<^verbatim>\<open>getattr(Modbus, ..., None)\<close>; \<open>counter_count k\<close> is \<open>None\<close> when the HAL has no
  counter object \<^verbatim>\<open>countk\<close>, and otherwise the outcome of reading its \<^verbatim>\<open>count\<close>;
  \<open>din_value k\<close> and \<open>dout_value k\<close> are \<^verbatim>\<open>int(Hal.dink.value)\<close> and
  \<^verbatim>\<open>int(Hal.doutk.value)\<close>. The collaborators answer the same way throughout one
  snapshot.
\<close>

record eth_env =
  pretty_mac :: "pyerr + string"
  pretty_ip :: "pyerr + string"
  link_status :: "pyerr + bool"

record 'f status_env =
  eth :: "eth_env option"
  hostname :: "string option"
  uptime_clock :: 'f
  cpu_temperature :: "pyerr + 'f"
  supply_voltage :: "pyerr + int"
  din_value :: "nat \<Rightarrow> pyerr + int"
  counter_count :: "nat \<Rightarrow> (pyerr + int) option"
  dout_value :: "nat \<Rightarrow> pyerr + int"
  an_read_voltage_mv :: "nat \<Rightarrow> pyerr + int"
  an_read_current_ua :: "nat \<Rightarrow> pyerr + int"

text \<open>A read inside its own \<^verbatim>\<open>try\<close> whose handler assigns \<^verbatim>\<open>None\<close>.\<close>

definition guarded :: "('a \<Rightarrow> 'f json) \<Rightarrow> pyerr + 'a \<Rightarrow> 'f json" where
  "guarded j r = (case r of Inl e \<Rightarrow> JNull | Inr v \<Rightarrow> j v)"

text \<open>
  A dictionary display whose values are read with no \<^verbatim>\<open>try\<close> around them: the items
  are evaluated in order and the first read that raises ends the display.
\<close>

fun items_of :: "(string \<times> (pyerr + 'f json)) list \<Rightarrow> pyerr + (string \<times> 'f json) list" where
  "items_of [] = Inr []"
| "items_of ((k, r) # rest) =
     (case r of
        Inl e \<Rightarrow> Inl e
      | Inr v \<Rightarrow> (case items_of rest of Inl e \<Rightarrow> Inl e | Inr vs \<Rightarrow> Inr ((k, v) # vs)))"

definition int_item :: "pyerr + int \<Rightarrow> pyerr + 'f json" where
  "int_item r = (case r of Inl e \<Rightarrow> Inl e | Inr v \<Rightarrow> Inr (JInt v))"

text \<open>
  The value of an odd-numbered input (lines 201 to 209): the counter's count when the
  HAL has the counter, the input's value otherwise.
\<close>

definition din_or_count :: "'f status_env \<Rightarrow> nat \<Rightarrow> pyerr + int" where
  "din_or_count H k = (case counter_count H k of Some c \<Rightarrow> c | None \<Rightarrow> din_value H k)"

text \<open>
  An item of \<^verbatim>\<open>counters\<close> (lines 214 to 218): \<^verbatim>\<open>getattr(Hal.countk, "count", 0)\<close>
  turns an \<open>AttributeError\<close> into 0 and lets any other exception through.
\<close>

definition counter_item :: "'f status_env \<Rightarrow> nat \<Rightarrow> pyerr + 'f json" where
  "counter_item H k =
     (case counter_count H k of
        None \<Rightarrow> Inr JNull
      | Some (Inl AttributeError) \<Rightarrow> Inr (JInt 0)
      | Some (Inl e) \<Rightarrow> Inl e
      | Some (Inr c) \<Rightarrow> Inr (JInt c))"

text \<open>
  The two channels of one analog quantity share one \<^verbatim>\<open>try\<close> (lines 227 to 238): when
  either read raises, both values are \<^verbatim>\<open>None\<close>.
\<close>

definition analog_pair :: "(nat \<Rightarrow> pyerr + int) \<Rightarrow> 'f json \<times> 'f json" where
  "analog_pair rd =
     (case rd 0 of
        Inl e \<Rightarrow> (JNull, JNull)
      | Inr a0 \<Rightarrow> (case rd 1 of Inl e \<Rightarrow> (JNull, JNull) | Inr a1 \<Rightarrow> (JInt a0, JInt a1)))"

text \<open>
  \<^verbatim>\<open>_read_status()\<close>: the document, or the exception that left the function. The last
  argument is the sensor poller's state, for \<^verbatim>\<open>RS485.get_status()\<close>.
\<close>

definition read_status :: "'f pyops \<Rightarrow> 'f status_env \<Rightarrow> 'f sensor \<Rightarrow> pyerr + 'f json" where
  "read_status P H s =
     (let mac = (case eth H of None \<Rightarrow> JNull | Some e \<Rightarrow> guarded JStr (pretty_mac e));
          ip = (case eth H of None \<Rightarrow> JNull | Some e \<Rightarrow> guarded JStr (pretty_ip e));
          link = (case eth H of None \<Rightarrow> JNull | Some e \<Rightarrow> guarded JBool (link_status e));
          uptime_s = float_int P (uptime_clock H);
          cpu_temp_c = guarded JFloat (cpu_temperature H);
          supply_mv = guarded JInt (supply_voltage H)
      in case items_of
                [(''DI0'', int_item (din_value H 0)),
                 (''DI1'', int_item (din_or_count H 1)),
                 (''DI2'', int_item (din_value H 2)),
                 (''DI3'', int_item (din_or_count H 3)),
                 (''DI4'', int_item (din_value H 4)),
                 (''DI5'', int_item (din_or_count H 5)),
                 (''DI6'', int_item (din_value H 6)),
                 (''DI7'', int_item (din_or_count H 7)),
                 (''DI8'', int_item (din_value H 8)),
                 (''DI9'', int_item (din_or_count H 9)),
                 (''DI10'', int_item (din_value H 10))] of
           Inl e \<Rightarrow> Inl e
         | Inr dins \<Rightarrow>
      (case items_of
                [(''COUNT1'', counter_item H 1),
                 (''COUNT3'', counter_item H 3),
                 (''COUNT5'', counter_item H 5),
                 (''COUNT7'', counter_item H 7),
                 (''COUNT9'', counter_item H 9)] of
           Inl e \<Rightarrow> Inl e
         | Inr counters \<Rightarrow>
      (case items_of
                [(''DO0'', int_item (dout_value H 0)),
                 (''DO1'', int_item (dout_value H 1)),
                 (''DO2'', int_item (dout_value H 2)),
                 (''DO3'', int_item (dout_value H 3))] of
           Inl e \<Rightarrow> Inl e
         | Inr douts \<Rightarrow>
      (case analog_pair (an_read_voltage_mv H) of (anv0, anv1) \<Rightarrow>
      (case analog_pair (an_read_current_ua H) of (ana0, ana1) \<Rightarrow>
         Inr (JObj
           [(''device'',
               JObj
                [(''model'', JStr ''IRIV-IOC''),
                 (''hostname'', opt_json JStr (hostname H)),
                 (''mac'', mac),
                 (''ip'', ip),
                 (''link_up'', link),
                 (''uptime_seconds'', JInt uptime_s),
                 (''uptime_hms'', JStr (fmt_uptime uptime_s)),
                 (''cpu_temp_c'', cpu_temp_c),
                 (''supply_mv'', supply_mv)]),
            (''io'',
               JObj
                [(''din'', JObj dins),
                 (''dout'', JObj douts),
                 (''counters'', JObj counters),
                 (''an_voltage_mv'', JObj [(''AN0'', anv0), (''AN1'', anv1)]),
                 (''an_current_ua'', JObj [(''AN0'', ana0), (''AN1'', ana1)])]),
            (''sensors'', JObj [(''rs485'', get_status P s)])]))))))"

section \<open>Vocabulary of the properties and concrete inputs\<close>

subsection \<open>Sensor poller\<close>

text \<open>
  A call of \<^verbatim>\<open>process()\<close> is due when \<^verbatim>\<open>now < _next_poll\<close> is false. A channel's
  attempt has failed when the body of its \<^verbatim>\<open>try\<close> raised: the read raised, or
  \<^verbatim>\<open>_serial\<close> was \<^verbatim>\<open>None\<close>, or the decoder raised on the tuple returned.
\<close>

definition due :: "'f pyops \<Rightarrow> 'f sensor_env \<Rightarrow> 'f sensor \<Rightarrow> bool" where
  "due P E s = (\<not> float_less P (monotonic E) (next_poll s))"

definition primary_failed :: "'f pyops \<Rightarrow> 'f sensor_env \<Rightarrow> 'f sensor \<Rightarrow> bool" where
  "primary_failed P E s = (case fst (primary_attempt P E s) of Inl e \<Rightarrow> True | Inr x \<Rightarrow> False)"

definition humidity_failed :: "'f pyops \<Rightarrow> 'f sensor_env \<Rightarrow> 'f sensor \<Rightarrow> bool" where
  "humidity_failed P E s = (case fst (humidity_attempt P E s) of Inl e \<Rightarrow> True | Inr x \<Rightarrow> False)"

text \<open>
  Concrete inputs: a poller that is enabled with its port open, the humidity channel on
  and a good reading of both channels stored; environments in which both reads raise, or
  only the humidity read raises, at clock reading \<open>t\<close>; settings that enable the
  poller, with a \<^verbatim>\<open>Serial(...)\<close> constructor that raises and one that would succeed.
\<close>

definition active_sensor :: "rat sensor" where
  "active_sensor =
     (initial_sensor exact_ops)
       \<lparr> enabled := True, serial := Some (Serial 9600), hum_enable := True,
         last_value := Some (47 / 2), last_raw := Some 235, last_ok := True,
         last_hum := Some (306 / 5), last_hum_raw := Some 612, last_hum_ok := True \<rparr>"

definition reads_fail_at :: "rat \<Rightarrow> rat sensor_env" where
  "reads_fail_at t =
     \<lparr> getenv = Map.empty, serial_ctor = None, monotonic = t,
       primary_read = Inl OSError, hum_read = Inl OSError \<rparr>"

definition humidity_fails_at :: "rat \<Rightarrow> rat sensor_env" where
  "humidity_fails_at t =
     \<lparr> getenv = Map.empty, serial_ctor = None, monotonic = t,
       primary_read = Inr [240], hum_read = Inl OSError \<rparr>"

definition sensor_settings :: "string \<Rightarrow> string option" where
  "sensor_settings = [''MODBUS_MODE'' \<mapsto> ''TCP'', ''RS485_SENSOR_ENABLE'' \<mapsto> ''1'']"

definition ctor_fails :: "rat sensor_env" where
  "ctor_fails = \<lparr> getenv = sensor_settings, serial_ctor = Some OSError, monotonic = 1,
                  primary_read = Inr [235], hum_read = Inr [612] \<rparr>"

definition ctor_would_succeed :: "rat sensor_env" where
  "ctor_would_succeed = \<lparr> getenv = sensor_settings, serial_ctor = None, monotonic = 2,
                  primary_read = Inr [235], hum_read = Inr [612] \<rparr>"

subsection \<open>Main scheduler\<close>

text \<open>
  The events of the fixed sequence (the two feeds and the three steps), and what the
  first handler prints for a step outcome.
\<close>

definition scheduled :: "event \<Rightarrow> bool" where
  "scheduled e =
     (case e of Feed_watchdog \<Rightarrow> True | Modbus_process \<Rightarrow> True | Web_process \<Rightarrow> True
      | Sensor_process \<Rightarrow> True | _ \<Rightarrow> False)"

definition printed :: "step_result \<Rightarrow> event list" where
  "printed m = (case m of Raises (Exception e) \<Rightarrow> [Print_exception e] | _ \<Rightarrow> [])"

text \<open>
  Concrete iterations: one whose Modbus step is interrupted by the operator, one whose
  three steps all raise an exception of class \<^verbatim>\<open>Exception\<close>, one whose steps all
  return; and the loop's variables at its start.
\<close>

definition interrupted_tick :: "rat tick_env" where
  "interrupted_tick =
     \<lparr> modbus_step = Raises KeyboardInterrupt, web_step = Returns, sensor_step = Returns,
       clock_compared = 1, clock_stored = 1 \<rparr>"

definition failing_tick :: "rat tick_env" where
  "failing_tick =
     \<lparr> modbus_step = Raises (Exception OSError), web_step = Raises (Exception ValueError),
       sensor_step = Raises (Exception RuntimeError), clock_compared = 1, clock_stored = 5 / 4 \<rparr>"

definition quiet_tick :: "rat tick_env" where
  "quiet_tick =
     \<lparr> modbus_step = Returns, web_step = Returns, sensor_step = Returns,
       clock_compared = 3 / 2, clock_stored = 3 / 2 \<rparr>"

definition main_start :: "rat main_state" where
  "main_start = \<lparr> timestamp = 0, led = False \<rparr>"

subsection \<open>Web control surface\<close>

text \<open>
  What toggling output \<open>n\<close> twice through \<open>route\<close>, with nothing raising, has to
  do: the first call inverts the output, the second restores it, and after each call the
  coil at \<open>addr\<close> holds the value that mirrors the output.
\<close>

definition toggles_back ::
  "(toggle_env \<Rightarrow> io_state \<Rightarrow> io_state \<times> response) \<Rightarrow> nat \<Rightarrow> int \<Rightarrow> io_state \<Rightarrow> bool" where
  "toggles_back route n addr w =
     (let w1 = fst (route no_failure w); w2 = fst (route no_failure w1)
      in dout w1 n = (\<not> dout w n) \<and>
         coil w1 addr = Some (coil_of (dout w1 n)) \<and>
         dout w2 n = dout w n \<and>
         coil w2 addr = Some (coil_of (dout w2 n)))"

text \<open>Concrete coil addresses, and a board with every output off and no coil written.\<close>

definition bench_addresses :: coil_addresses where
  "bench_addresses = \<lparr> DO0_ADD = 100, DO1_ADD = 101, DO2_ADD = 102, DO3_ADD = 103 \<rparr>"

definition outputs_off :: io_state where
  "outputs_off = \<lparr> dout = (\<lambda>n. False), coil = Map.empty \<rparr>"

text \<open>
  A read that returned; the reads \<^verbatim>\<open>_read_status\<close> makes with no \<^verbatim>\<open>try\<close> around
  them (inputs, counters behind the odd inputs, outputs) all returning; the value of a
  network field, which depends on its own read alone; and the value of channel \<open>k\<close> of
  an analog quantity, which is null as soon as either channel's read raises.
\<close>

definition is_ok :: "pyerr + 'a \<Rightarrow> bool" where
  "is_ok r = (case r of Inl e \<Rightarrow> False | Inr v \<Rightarrow> True)"

definition unguarded_reads_ok :: "'f status_env \<Rightarrow> bool" where
  "unguarded_reads_ok H =
     (list_all (\<lambda>k. is_ok (din_value H k)) [0, 2, 4, 6, 8, 10] \<and>
      list_all (\<lambda>k. is_ok (din_or_count H k)) [1, 3, 5, 7, 9] \<and>
      list_all (\<lambda>k. is_ok (dout_value H k)) [0, 1, 2, 3])"

definition eth_field :: "('a \<Rightarrow> 'f json) \<Rightarrow> (eth_env \<Rightarrow> pyerr + 'a) \<Rightarrow> 'f status_env \<Rightarrow> 'f json" where
  "eth_field j rd H = (case eth H of None \<Rightarrow> JNull | Some e \<Rightarrow> guarded j (rd e))"

definition pair_field :: "(nat \<Rightarrow> pyerr + int) \<Rightarrow> nat \<Rightarrow> 'f json" where
  "pair_field rd k = (if is_ok (rd 0) \<and> is_ok (rd 1) then JInt (projr (rd k)) else JNull)"

text \<open>
  Concrete boards: every read returns; the MAC address read raises; the voltage read of
  channel 1 raises; the read of input 4 raises.
\<close>

definition healthy_board :: "rat status_env" where
  "healthy_board =
     \<lparr> eth = Some \<lparr> pretty_mac = Inr ''70:b3:d5:00:00:01'', pretty_ip = Inr ''192.168.1.50'',
                    link_status = Inr True \<rparr>,
       hostname = Some ''iriv'', uptime_clock = 123 / 2,
       cpu_temperature = Inr (61 / 2), supply_voltage = Inr 24000,
       din_value = (\<lambda>k. Inr 0),
       counter_count = (\<lambda>k. if k = 1 then Some (Inr 7) else None),
       dout_value = (\<lambda>k. Inr 1),
       an_read_voltage_mv = (\<lambda>k. Inr 5000),
       an_read_current_ua = (\<lambda>k. Inr 4000) \<rparr>"

definition mac_unavailable :: "rat status_env" where
  "mac_unavailable =
     healthy_board
       \<lparr> eth := Some \<lparr> pretty_mac = Inl OSError, pretty_ip = Inr ''192.168.1.50'',
                       link_status = Inr True \<rparr> \<rparr>"

definition voltage1_fails :: "rat status_env" where
  "voltage1_fails =
     healthy_board \<lparr> an_read_voltage_mv := (\<lambda>k. if k = 1 then Inl OSError else Inr 5000) \<rparr>"

definition din4_fails :: "rat status_env" where
  "din4_fails = healthy_board \<lparr> din_value := (\<lambda>k. if k = 4 then Inl OSError else Inr 0) \<rparr>"

section \<open>The register decoder's results\<close>

lemma and_ffff: "(v::int) AND 0xFFFF = take_bit 16 v"
  by (simp add: take_bit_eq_mask mask_eq_exp_minus_1)

lemma join_halves:
  "push_bit 16 (take_bit 16 (drop_bit 16 b)) OR take_bit 16 b = take_bit 32 (b::int)"
  by (rule bit_eqI) (auto simp add: bit_simps)

lemma decode_int16_first: "decode_vals F (w # ws) ''int16'' sg sc = Inr (w, int_mul F w sc)"
  by (simp add: decode_vals_def vals_at_def)

lemma decode_uint16_first:
  "decode_vals F (w # ws) ''uint16'' sg sc = Inr (w mod 65536, int_mul F (w mod 65536) sc)"
  by (simp add: decode_vals_def vals_at_def and_ffff take_bit_eq_mod Let_def)

lemma decode_float32_two:
  "decode_vals F (w0 # w1 # ws) ''float32'' sg sc =
     Inr (push_bit 16 (take_bit 16 w0) OR take_bit 16 w1,
          float_mul F (unpack_f32 F (push_bit 16 (take_bit 16 w0) OR take_bit 16 w1)) sc)"
  by (simp add: decode_vals_def vals_at_def and_ffff Let_def)

lemma decode_float32_swapped_two:
  "decode_vals F (w0 # w1 # ws) ''float32_swapped'' sg sc =
     Inr (push_bit 16 (take_bit 16 w1) OR take_bit 16 w0,
          float_mul F (unpack_f32 F (push_bit 16 (take_bit 16 w1) OR take_bit 16 w0)) sc)"
  by (simp add: decode_vals_def vals_at_def and_ffff Let_def)

lemma decode_fallback:
  "fmt \<noteq> ''int16'' \<Longrightarrow> fmt \<noteq> ''uint16'' \<Longrightarrow> fmt \<noteq> ''float32'' \<Longrightarrow>
   fmt \<noteq> ''float32_swapped'' \<Longrightarrow>
   decode_vals F vals fmt sg sc = decode_vals F vals ''int16'' sg' sc"
  by (simp add: decode_vals_def)

text \<open>
  C3, as the code has it. The decoder never reads \<open>signed\<close> and does not sign-extend:
  with \<^verbatim>\<open>int16\<close> the raw value is the first element exactly as it was supplied, and
  with \<^verbatim>\<open>uint16\<close> it is the first element reduced to its low 16 bits. So the word
  supplied as 0xFFFF decodes to 65535 under both formats, also with \<open>signed\<close> true, and
  the raw value \<open>-1\<close> comes out of \<^verbatim>\<open>int16\<close> only when the element supplied is already
  \<open>-1\<close> (which is how the transport, called with the same signed flag, hands over the
  word 0xFFFF); \<^verbatim>\<open>uint16\<close> turns that \<open>-1\<close> into 65535.
\<close>

theorem decode_int16_uint16_raw:
  "decode_vals F (w # ws) ''int16'' sg sc = Inr (w, int_mul F w sc) \<and>
   decode_vals F (w # ws) ''uint16'' sg sc = Inr (w mod 65536, int_mul F (w mod 65536) sc) \<and>
   decode_vals F [0xFFFF] ''int16'' True sc = Inr (65535, int_mul F 65535 sc) \<and>
   decode_vals F [- 1] ''int16'' True sc = Inr (- 1, int_mul F (- 1) sc) \<and>
   decode_vals F [0xFFFF] ''uint16'' sg sc = Inr (65535, int_mul F 65535 sc) \<and>
   decode_vals F [- 1] ''uint16'' sg sc = Inr (65535, int_mul F 65535 sc)"
  by (simp add: decode_int16_first decode_uint16_first)

text \<open>
  C3 as the claim states it fails: the single word 0xFFFF with format \<^verbatim>\<open>int16\<close> and
  \<open>signed\<close> true decodes to raw 65535, not to \<open>-1\<close>.
\<close>

theorem decode_int16_signed_counterexample:
  "decode_vals exact_ops [0xFFFF] ''int16'' True (1 / 10) = Inr (65535, 13107 / 2) \<and>
   decode_vals exact_ops [0xFFFF] ''int16'' True (1 / 10) \<noteq> Inr (- 1, - (1 / 10))"
  by (simp add: decode_int16_first exact_ops_def)

text \<open>
  C8. For every 32-bit pattern \<open>b\<close>, that is for every binary32 value
  \<open>v = unpack_f32 F b\<close>: decoding its two big-endian words (high word first) with
  \<^verbatim>\<open>float32\<close> and scale \<open>sc\<close> gives the raw pattern \<open>b\<close> and the platform's float product
  of \<open>v\<close> and \<open>sc\<close>, and decoding the same two words in reversed order with
  \<^verbatim>\<open>float32_swapped\<close> gives the same pair. The last conjunct is the same equality for
  any two elements supplied.
\<close>

theorem decode_float32_word_order:
  "(0 \<le> b \<and> b < 2 ^ 32 \<longrightarrow>
      decode_vals F [drop_bit 16 b, b AND 0xFFFF] ''float32'' sg sc =
        Inr (b, float_mul F (unpack_f32 F b) sc) \<and>
      decode_vals F [b AND 0xFFFF, drop_bit 16 b] ''float32_swapped'' sg sc =
        Inr (b, float_mul F (unpack_f32 F b) sc)) \<and>
   decode_vals F [w1, w0] ''float32_swapped'' sg sc = decode_vals F [w0, w1] ''float32'' sg sc"
  by (simp add: decode_float32_two decode_float32_swapped_two and_ffff join_halves
      take_bit_int_eq_self)

text \<open>
  The pattern 0x41BC0000 is the binary32 value 23.5: with scale 0.1 both word orders give
  the raw pattern and 2.35 in exact arithmetic.
\<close>

theorem decode_float32_word_order_witness:
  "(0::int) \<le> 0x41BC0000 \<and> (0x41BC0000::int) < 2 ^ 32 \<and>
   decode_vals exact_ops [0x41BC, 0] ''float32'' False (1 / 10) = Inr (0x41BC0000, 47 / 20) \<and>
   decode_vals exact_ops [0, 0x41BC] ''float32_swapped'' False (1 / 10) =
     Inr (0x41BC0000, 47 / 20)"
  using decode_float32_word_order [of "0x41BC0000" exact_ops False "1 / 10" 0 0]
  by (simp add: exact_ops_def binary32_value_def)

text \<open>
  C9. When the tuple has the length the format needs (two elements for \<^verbatim>\<open>float32\<close> and
  \<^verbatim>\<open>float32_swapped\<close>, one for every other format string) and holds 16-bit register
  values, the decoder returns a pair and raises nothing; a format string that is none of
  the four names is decoded as \<^verbatim>\<open>int16\<close> is, from the first element. The decoder reads
  and writes no global, so its model is a function of its arguments alone.
\<close>

theorem decode_vals_returns:
  assumes "length vals = (if fmt = ''float32'' \<or> fmt = ''float32_swapped'' then 2 else 1)"
    and "list_all (\<lambda>v. - 32768 \<le> v \<and> v \<le> 65535) vals"
  shows "(\<exists>raw scaled. decode_vals F vals fmt sg sc = Inr (raw, scaled)) \<and>
         (fmt \<noteq> ''int16'' \<and> fmt \<noteq> ''uint16'' \<and> fmt \<noteq> ''float32'' \<and>
          fmt \<noteq> ''float32_swapped'' \<longrightarrow>
          decode_vals F vals fmt sg sc = Inr (vals ! 0, int_mul F (vals ! 0) sc) \<and>
          decode_vals F vals fmt sg sc = decode_vals F vals ''int16'' sg sc)"
proof -
  consider (f) "fmt = ''float32'' \<or> fmt = ''float32_swapped''"
    | (i) "fmt = ''int16'' \<or> fmt = ''uint16''"
    | (o) "fmt \<noteq> ''int16''" "fmt \<noteq> ''uint16''" "fmt \<noteq> ''float32''"
        "fmt \<noteq> ''float32_swapped''"
    by blast
  then show ?thesis
  proof cases
    case f
    with assms(1) obtain w0 w1 where "vals = [w0, w1]"
      by (cases vals; cases "tl vals"; cases "tl (tl vals)") auto
    with f show ?thesis
      by (auto simp add: decode_float32_two decode_float32_swapped_two)
  next
    case i
    with assms(1) obtain w where "vals = [w]"
      by (cases vals) auto
    with i show ?thesis
      by (auto simp add: decode_int16_first decode_uint16_first)
  next
    case o
    with assms(1) obtain w where "vals = [w]"
      by (cases vals) auto
    with o show ?thesis
      by (simp add: decode_fallback [where sg' = sg] decode_int16_first)
  qed
qed

theorem decode_vals_returns_witness:
  "length [5::int] = 1 \<and> list_all (\<lambda>v. - 32768 \<le> v \<and> v \<le> 65535) [5::int] \<and>
   decode_vals exact_ops [5] ''bcd'' False (1 / 10) = Inr (5, 1 / 2)"
  using decode_vals_returns [of "[5]" "''bcd''" exact_ops False "1 / 10"]
  by (simp add: exact_ops_def)

section \<open>The sensor poller's steps\<close>

lemma primary_attempt_cong:
  "serial s' = serial s \<Longrightarrow> use_input_regs s' = use_input_regs s \<Longrightarrow>
   slave_addr s' = slave_addr s \<Longrightarrow> reg_addr s' = reg_addr s \<Longrightarrow> qty s' = qty s \<Longrightarrow>
   signed s' = signed s \<Longrightarrow> format s' = format s \<Longrightarrow> scale s' = scale s \<Longrightarrow>
   primary_attempt P E s' = primary_attempt P E s"
  by (simp add: primary_attempt_def read_registers_def
      cong: option.case_cong prod.case_cong sum.case_cong)

lemma humidity_attempt_cong:
  "serial s' = serial s \<Longrightarrow> use_input_regs s' = use_input_regs s \<Longrightarrow>
   slave_addr s' = slave_addr s \<Longrightarrow> hum_reg s' = hum_reg s \<Longrightarrow> hum_qty s' = hum_qty s \<Longrightarrow>
   hum_signed s' = hum_signed s \<Longrightarrow> hum_format s' = hum_format s \<Longrightarrow>
   hum_scale s' = hum_scale s \<Longrightarrow>
   humidity_attempt P E s' = humidity_attempt P E s"
  by (simp add: humidity_attempt_def read_registers_def
      cong: option.case_cong prod.case_cong sum.case_cong)

lemma primary_attempt_next_poll:
  "primary_attempt P E (s\<lparr> next_poll := x \<rparr>) = primary_attempt P E s"
  by (rule primary_attempt_cong) simp_all

lemma humidity_attempt_next_poll:
  "humidity_attempt P E (s\<lparr> next_poll := x \<rparr>) = humidity_attempt P E s"
  by (rule humidity_attempt_cong) simp_all

lemma process_primary_failed:
  assumes "primary_failed P E s"
  shows "fst (process_primary P E now s) = s\<lparr> err_count := err_count s + 1, last_ok := False \<rparr>"
proof -
  obtain r ev where a: "primary_attempt P E s = (r, ev)"
    by (cases "primary_attempt P E s")
  with assms obtain e where "r = Inl e"
    by (cases r) (simp_all add: primary_failed_def)
  with a show ?thesis
    by (simp add: process_primary_def)
qed

lemma process_primary_ok:
  assumes "\<not> primary_failed P E s"
  shows "\<exists>raw val. fst (primary_attempt P E s) = Inr (raw, val) \<and>
           fst (process_primary P E now s) =
            s\<lparr> last_raw := Some raw, last_value := Some val, last_ok := True, last_ts := now \<rparr>"
proof -
  obtain r ev where a: "primary_attempt P E s = (r, ev)"
    by (cases "primary_attempt P E s")
  with assms obtain raw val where "r = Inr (raw, val)"
    by (cases r) (auto simp add: primary_failed_def)
  with a show ?thesis
    by (simp add: process_primary_def)
qed

lemma process_humidity_failed:
  assumes "hum_enable s" and "humidity_failed P E s"
  shows "fst (process_humidity P E s) = s\<lparr> last_hum_ok := False \<rparr>"
proof -
  obtain r ev where a: "humidity_attempt P E s = (r, ev)"
    by (cases "humidity_attempt P E s")
  with assms(2) obtain e where "r = Inl e"
    by (cases r) (simp_all add: humidity_failed_def)
  with a assms(1) show ?thesis
    by (simp add: process_humidity_def)
qed

lemma process_humidity_ok:
  assumes "hum_enable s" and "\<not> humidity_failed P E s"
  shows "\<exists>hraw hval. fst (humidity_attempt P E s) = Inr (hraw, hval) \<and>
           fst (process_humidity P E s) =
            s\<lparr> last_hum_raw := Some hraw, last_hum := Some hval, last_hum_ok := True \<rparr>"
proof -
  obtain r ev where a: "humidity_attempt P E s = (r, ev)"
    by (cases "humidity_attempt P E s")
  with assms(2) obtain hraw hval where "r = Inr (hraw, hval)"
    by (cases r) (auto simp add: humidity_failed_def)
  with a assms(1) show ?thesis
    by (simp add: process_humidity_def)
qed

lemma process_humidity_disabled:
  "\<not> hum_enable s \<Longrightarrow> process_humidity P E s = (s, [])"
  by (simp add: process_humidity_def)

text \<open>
  What the primary block leaves alone, whatever its outcome.
\<close>

lemma process_primary_frame:
  "next_poll (fst (process_primary P E now s)) = next_poll s \<and>
   enabled (fst (process_primary P E now s)) = enabled s \<and>
   serial (fst (process_primary P E now s)) = serial s \<and>
   use_input_regs (fst (process_primary P E now s)) = use_input_regs s \<and>
   slave_addr (fst (process_primary P E now s)) = slave_addr s \<and>
   hum_enable (fst (process_primary P E now s)) = hum_enable s \<and>
   hum_reg (fst (process_primary P E now s)) = hum_reg s \<and>
   hum_qty (fst (process_primary P E now s)) = hum_qty s \<and>
   hum_signed (fst (process_primary P E now s)) = hum_signed s \<and>
   hum_format (fst (process_primary P E now s)) = hum_format s \<and>
   hum_scale (fst (process_primary P E now s)) = hum_scale s \<and>
   last_hum (fst (process_primary P E now s)) = last_hum s \<and>
   last_hum_raw (fst (process_primary P E now s)) = last_hum_raw s \<and>
   last_hum_ok (fst (process_primary P E now s)) = last_hum_ok s"
proof (cases "primary_failed P E s")
  case True
  then show ?thesis by (simp add: process_primary_failed)
next
  case False
  from process_primary_ok [OF this, of now] obtain raw val where
    "fst (process_primary P E now s) =
       s\<lparr> last_raw := Some raw, last_value := Some val, last_ok := True, last_ts := now \<rparr>"
    by blast
  then show ?thesis by simp
qed

text \<open>
  What the humidity block leaves alone, whatever its outcome.
\<close>

lemma process_humidity_frame:
  "next_poll (fst (process_humidity P E s)) = next_poll s \<and>
   enabled (fst (process_humidity P E s)) = enabled s \<and>
   serial (fst (process_humidity P E s)) = serial s \<and>
   err_count (fst (process_humidity P E s)) = err_count s \<and>
   last_ok (fst (process_humidity P E s)) = last_ok s \<and>
   last_raw (fst (process_humidity P E s)) = last_raw s \<and>
   last_value (fst (process_humidity P E s)) = last_value s \<and>
   last_ts (fst (process_humidity P E s)) = last_ts s"
proof (cases "hum_enable s")
  case False
  then show ?thesis by (simp add: process_humidity_disabled)
next
  case True
  show ?thesis
  proof (cases "humidity_failed P E s")
    case True
    with \<open>hum_enable s\<close> show ?thesis by (simp add: process_humidity_failed)
  next
    case False
    from process_humidity_ok [OF \<open>hum_enable s\<close> this] obtain hraw hval where
      "fst (process_humidity P E s) =
         s\<lparr> last_hum_raw := Some hraw, last_hum := Some hval, last_hum_ok := True \<rparr>"
      by blast
    then show ?thesis by simp
  qed
qed

lemma process_due:
  "enabled s \<Longrightarrow> due P E s \<Longrightarrow>
   fst (process P E s) =
     fst (process_humidity P E (fst (process_primary P E (monotonic E)
            (s\<lparr> next_poll := float_add P (monotonic E) (poll_s s) \<rparr>))))"
  by (simp add: process_def due_def Let_def split: prod.splits)

lemma primary_failed_next_poll:
  "primary_failed P E (s\<lparr> next_poll := x \<rparr>) = primary_failed P E s"
  by (simp add: primary_failed_def primary_attempt_next_poll)

lemma humidity_after_primary:
  "humidity_attempt P E (fst (process_primary P E now (s\<lparr> next_poll := x \<rparr>))) =
     humidity_attempt P E s"
  by (rule humidity_attempt_cong) (simp_all add: process_primary_frame)

lemma humidity_failed_after_primary:
  "humidity_failed P E (fst (process_primary P E now (s\<lparr> next_poll := x \<rparr>))) =
     humidity_failed P E s"
  by (simp add: humidity_failed_def humidity_after_primary)

text \<open>
  The stored humidity reading after the humidity block, from the humidity fields alone.
\<close>

lemma process_humidity_reading:
  "last_hum (fst (process_humidity P E s)) =
     (if hum_enable s \<and> \<not> humidity_failed P E s
      then Some (snd (projr (fst (humidity_attempt P E s)))) else last_hum s) \<and>
   last_hum_raw (fst (process_humidity P E s)) =
     (if hum_enable s \<and> \<not> humidity_failed P E s
      then Some (fst (projr (fst (humidity_attempt P E s)))) else last_hum_raw s) \<and>
   last_hum_ok (fst (process_humidity P E s)) =
     (if hum_enable s then \<not> humidity_failed P E s else last_hum_ok s)"
proof (cases "hum_enable s")
  case False
  then show ?thesis by (simp add: process_humidity_disabled)
next
  case True
  show ?thesis
  proof (cases "humidity_failed P E s")
    case True
    with \<open>hum_enable s\<close> show ?thesis by (simp add: process_humidity_failed)
  next
    case False
    from process_humidity_ok [OF \<open>hum_enable s\<close> this] obtain hraw hval where
      "fst (humidity_attempt P E s) = Inr (hraw, hval)"
      "fst (process_humidity P E s) =
         s\<lparr> last_hum_raw := Some hraw, last_hum := Some hval, last_hum_ok := True \<rparr>"
      by blast
    with True False show ?thesis by simp
  qed
qed

lemma process_primary_events:
  "serial s = Some port \<Longrightarrow>
   snd (process_primary P E now s) =
     [if use_input_regs s then Read_input_registers (slave_addr s) (reg_addr s) (qty s) (signed s)
      else Read_holding_registers (slave_addr s) (reg_addr s) (qty s) (signed s)]"
  by (cases "primary_read E"; cases "decode_vals P (projr (primary_read E)) (format s) (signed s) (scale s)")
     (auto simp add: process_primary_def primary_attempt_def read_registers_def)

lemma process_events_due:
  "enabled s \<Longrightarrow> due P E s \<Longrightarrow>
   snd (process P E s) =
     snd (process_primary P E (monotonic E)
            (s\<lparr> next_poll := float_add P (monotonic E) (poll_s s) \<rparr>)) @
     snd (process_humidity P E (fst (process_primary P E (monotonic E)
            (s\<lparr> next_poll := float_add P (monotonic E) (poll_s s) \<rparr>))))"
  by (simp add: process_def due_def Let_def split: prod.splits)

lemma process_not_due:
  "enabled s \<Longrightarrow> \<not> due P E s \<Longrightarrow> process P E s = (s, [])"
  by (simp add: process_def due_def)

lemma process_due_next_poll:
  assumes "enabled s" and "due P E s"
  shows "next_poll (fst (process P E s)) = float_add P (monotonic E) (poll_s s) \<and>
         enabled (fst (process P E s)) \<and> serial (fst (process P E s)) = serial s"
  using assms by (simp add: process_due process_humidity_frame process_primary_frame)

text \<open>
  C5. With the poller enabled and its port open: a call before the next-due time leaves
  the state as it is and does nothing on the bus; a call that is due sets the next-due
  time to \<^verbatim>\<open>now + _poll_s\<close> whatever the two reads then do, and its first bus
  operation is the primary channel's read. In exact arithmetic, with an interval of 2 and
  a due call at time 0, the next-due time is 2 whatever the reads did, and a call at time
  1 does nothing.
\<close>

theorem poll_schedule:
  "(enabled s \<and> serial s = Some port \<and> float_less P (monotonic E) (next_poll s) \<longrightarrow>
      process P E s = (s, [])) \<and>
   (enabled s \<and> serial s = Some port \<and> \<not> float_less P (monotonic E) (next_poll s) \<longrightarrow>
      next_poll (fst (process P E s)) = float_add P (monotonic E) (poll_s s) \<and>
      hd (snd (process P E s)) =
        (if use_input_regs s
         then Read_input_registers (slave_addr s) (reg_addr s) (qty s) (signed s)
         else Read_holding_registers (slave_addr s) (reg_addr s) (qty s) (signed s))) \<and>
   (enabled r \<and> serial r = Some port \<and> poll_s r = 2 \<and> next_poll r \<le> 0 \<and>
    monotonic E0 = 0 \<and> monotonic E1 = 1 \<longrightarrow>
      next_poll (fst (process exact_ops E0 r)) = 2 \<and>
      process exact_ops E1 (fst (process exact_ops E0 r)) = (fst (process exact_ops E0 r), []))"
proof (intro conjI impI)
  assume "enabled s \<and> serial s = Some port \<and> float_less P (monotonic E) (next_poll s)"
  then show "process P E s = (s, [])"
    by (simp add: process_not_due due_def)
next
  assume a: "enabled s \<and> serial s = Some port \<and> \<not> float_less P (monotonic E) (next_poll s)"
  then show "next_poll (fst (process P E s)) = float_add P (monotonic E) (poll_s s)"
    by (simp add: process_due_next_poll due_def)
  from a have "serial (s\<lparr> next_poll := float_add P (monotonic E) (poll_s s) \<rparr>) = Some port"
    by simp
  from process_primary_events [OF this] a
  show "hd (snd (process P E s)) =
        (if use_input_regs s
         then Read_input_registers (slave_addr s) (reg_addr s) (qty s) (signed s)
         else Read_holding_registers (slave_addr s) (reg_addr s) (qty s) (signed s))"
    by (simp add: process_events_due due_def)
next
  assume a: "enabled r \<and> serial r = Some port \<and> poll_s r = 2 \<and> next_poll r \<le> 0 \<and>
    monotonic E0 = 0 \<and> monotonic E1 = 1"
  then have d: "due exact_ops E0 r"
    by (simp add: due_def exact_ops_def)
  with a have n: "next_poll (fst (process exact_ops E0 r)) = 2"
    and e: "enabled (fst (process exact_ops E0 r))"
    by (simp_all add: process_due_next_poll) (simp add: exact_ops_def)
  show "next_poll (fst (process exact_ops E0 r)) = 2" by (rule n)
  from a n have "\<not> due exact_ops E1 (fst (process exact_ops E0 r))"
    by (simp add: due_def exact_ops_def)
  with e show "process exact_ops E1 (fst (process exact_ops E0 r)) = (fst (process exact_ops E0 r), [])"
    by (rule process_not_due)
qed

text \<open>
  The instance: both reads raise at time 0; the next-due time is 2 and the call at time 1
  is a no-op.
\<close>

theorem poll_schedule_witness:
  "enabled active_sensor \<and> serial active_sensor = Some (Serial 9600) \<and>
   poll_s active_sensor = 2 \<and> next_poll active_sensor \<le> 0 \<and>
   monotonic (reads_fail_at 0) = 0 \<and> monotonic (reads_fail_at 1) = 1 \<and>
   float_less exact_ops (monotonic (reads_fail_at 1)) (next_poll (active_sensor\<lparr> next_poll := 2 \<rparr>)) \<and>
   process exact_ops (reads_fail_at 1) (active_sensor\<lparr> next_poll := 2 \<rparr>) =
     (active_sensor\<lparr> next_poll := 2 \<rparr>, []) \<and>
   next_poll (fst (process exact_ops (reads_fail_at 0) active_sensor)) = 2 \<and>
   hd (snd (process exact_ops (reads_fail_at 0) active_sensor)) =
     Read_input_registers 1 0 1 False \<and>
   process exact_ops (reads_fail_at 1) (fst (process exact_ops (reads_fail_at 0) active_sensor)) =
     (fst (process exact_ops (reads_fail_at 0) active_sensor), [])"
  using poll_schedule [where s = "active_sensor\<lparr> next_poll := 2 \<rparr>" and port = "Serial 9600"
      and P = exact_ops and E = "reads_fail_at 1" and r = active_sensor
      and ?E0.0 = "reads_fail_at 0" and ?E1.0 = "reads_fail_at 1"]
    poll_schedule [where s = active_sensor and port = "Serial 9600"
      and P = exact_ops and E = "reads_fail_at 0" and r = active_sensor
      and ?E0.0 = "reads_fail_at 0" and ?E1.0 = "reads_fail_at 1"]
  by (simp add: active_sensor_def initial_sensor_def reads_fail_at_def exact_ops_def)

text \<open>
  C4. In a due call in which the primary channel's attempt fails, the error count goes
  up by exactly one, the primary ok flag is false, and the stored primary raw value,
  scaled value and timestamp are those before the call. The humidity fields after the
  call are exactly what the humidity block alone makes of the state before the call: the
  primary failure changes nothing of them, and they are the old ones when the humidity
  channel is off or its own attempt fails. In a due call in which the humidity attempt
  fails, the primary ok flag is decided by the primary attempt alone.
\<close>

theorem primary_failure_frame:
  "(enabled s \<and> due P E s \<and> primary_failed P E s \<longrightarrow>
      err_count (fst (process P E s)) = err_count s + 1 \<and>
      \<not> last_ok (fst (process P E s)) \<and>
      last_raw (fst (process P E s)) = last_raw s \<and>
      last_value (fst (process P E s)) = last_value s \<and>
      last_ts (fst (process P E s)) = last_ts s \<and>
      last_hum (fst (process P E s)) = last_hum (fst (process_humidity P E s)) \<and>
      last_hum_raw (fst (process P E s)) = last_hum_raw (fst (process_humidity P E s)) \<and>
      last_hum_ok (fst (process P E s)) = last_hum_ok (fst (process_humidity P E s)) \<and>
      (\<not> hum_enable s \<or> humidity_failed P E s \<longrightarrow>
         last_hum (fst (process P E s)) = last_hum s \<and>
         last_hum_raw (fst (process P E s)) = last_hum_raw s)) \<and>
   (enabled s \<and> due P E s \<and> humidity_failed P E s \<longrightarrow>
      last_ok (fst (process P E s)) = (\<not> primary_failed P E s))"
proof -
  let ?s1 = "s\<lparr> next_poll := float_add P (monotonic E) (poll_s s) \<rparr>"
  let ?s2 = "fst (process_primary P E (monotonic E) ?s1)"
  have hum:
    "last_hum (fst (process_humidity P E ?s2)) = last_hum (fst (process_humidity P E s))"
    "last_hum_raw (fst (process_humidity P E ?s2)) = last_hum_raw (fst (process_humidity P E s))"
    "last_hum_ok (fst (process_humidity P E ?s2)) = last_hum_ok (fst (process_humidity P E s))"
    by (simp_all add: process_humidity_reading humidity_after_primary
        humidity_failed_after_primary process_primary_frame)
  have unch: "\<not> hum_enable s \<or> humidity_failed P E s \<Longrightarrow>
      last_hum (fst (process_humidity P E s)) = last_hum s \<and>
      last_hum_raw (fst (process_humidity P E s)) = last_hum_raw s"
    by (auto simp add: process_humidity_reading)
  have failed: "primary_failed P E s \<Longrightarrow>
      ?s2 = ?s1\<lparr> err_count := err_count ?s1 + 1, last_ok := False \<rparr>"
    by (rule process_primary_failed) (simp add: primary_failed_next_poll)
  have ok: "last_ok ?s2 = (\<not> primary_failed P E s)"
  proof (cases "primary_failed P E s")
    case True
    with failed show ?thesis by simp
  next
    case False
    then have "\<not> primary_failed P E ?s1" by (simp add: primary_failed_next_poll)
    from process_primary_ok [OF this, of "monotonic E"] False show ?thesis by auto
  qed
  show ?thesis
  proof (intro conjI impI)
    assume a: "enabled s \<and> due P E s \<and> primary_failed P E s"
    then have p: "fst (process P E s) = fst (process_humidity P E ?s2)"
      by (simp add: process_due)
    from a failed have f: "?s2 = ?s1\<lparr> err_count := err_count ?s1 + 1, last_ok := False \<rparr>"
      by simp
    show "err_count (fst (process P E s)) = err_count s + 1"
      by (simp add: p process_humidity_frame) (simp add: f)
    show "\<not> last_ok (fst (process P E s))"
      by (simp add: p process_humidity_frame) (simp add: f)
    show "last_raw (fst (process P E s)) = last_raw s"
      by (simp add: p process_humidity_frame) (simp add: f)
    show "last_value (fst (process P E s)) = last_value s"
      by (simp add: p process_humidity_frame) (simp add: f)
    show "last_ts (fst (process P E s)) = last_ts s"
      by (simp add: p process_humidity_frame) (simp add: f)
    show "last_hum (fst (process P E s)) = last_hum (fst (process_humidity P E s))"
      by (simp only: p hum)
    show "last_hum_raw (fst (process P E s)) = last_hum_raw (fst (process_humidity P E s))"
      by (simp only: p hum)
    show "last_hum_ok (fst (process P E s)) = last_hum_ok (fst (process_humidity P E s))"
      by (simp only: p hum)
    assume "\<not> hum_enable s \<or> humidity_failed P E s"
    from unch [OF this]
    show "last_hum (fst (process P E s)) = last_hum s"
      and "last_hum_raw (fst (process P E s)) = last_hum_raw s"
      by (simp_all only: p hum)
  next
    assume a: "enabled s \<and> due P E s \<and> humidity_failed P E s"
    then have p: "fst (process P E s) = fst (process_humidity P E ?s2)"
      by (simp add: process_due)
    show "last_ok (fst (process P E s)) = (\<not> primary_failed P E s)"
      by (simp add: p process_humidity_frame ok)
  qed
qed

text \<open>
  The instance: both reads raise on a poller holding 235 / 23.5 and 612 / 61.2.
\<close>

theorem primary_failure_frame_witness:
  "enabled active_sensor \<and> due exact_ops (reads_fail_at 0) active_sensor \<and>
   primary_failed exact_ops (reads_fail_at 0) active_sensor \<and>
   humidity_failed exact_ops (reads_fail_at 0) active_sensor \<and>
   err_count (fst (process exact_ops (reads_fail_at 0) active_sensor)) = 1 \<and>
   \<not> last_ok (fst (process exact_ops (reads_fail_at 0) active_sensor)) \<and>
   last_raw (fst (process exact_ops (reads_fail_at 0) active_sensor)) = Some 235 \<and>
   last_value (fst (process exact_ops (reads_fail_at 0) active_sensor)) = Some (47 / 2) \<and>
   last_ts (fst (process exact_ops (reads_fail_at 0) active_sensor)) = 0 \<and>
   last_hum (fst (process exact_ops (reads_fail_at 0) active_sensor)) = Some (306 / 5) \<and>
   last_hum_raw (fst (process exact_ops (reads_fail_at 0) active_sensor)) = Some 612"
proof -
  have h: "enabled active_sensor" "due exact_ops (reads_fail_at 0) active_sensor"
    "primary_failed exact_ops (reads_fail_at 0) active_sensor"
    "humidity_failed exact_ops (reads_fail_at 0) active_sensor"
    by (simp_all add: active_sensor_def initial_sensor_def reads_fail_at_def exact_ops_def
        due_def primary_failed_def humidity_failed_def primary_attempt_def
        humidity_attempt_def read_registers_def)
  have v: "err_count active_sensor = 0" "last_raw active_sensor = Some 235"
    "last_value active_sensor = Some (47 / 2)" "last_ts active_sensor = 0"
    "last_hum active_sensor = Some (306 / 5)" "last_hum_raw active_sensor = Some 612"
    by (simp_all add: active_sensor_def initial_sensor_def exact_ops_def)
  from primary_failure_frame [of active_sensor exact_ops "reads_fail_at 0"] h v
  show ?thesis by auto
qed

lemma init_humidity_err_count:
  "init_humidity P env d s = Inl s' \<or> init_humidity P env d s = Inr s' \<Longrightarrow>
   err_count s' = err_count s"
  by (auto simp add: init_humidity_def Let_def split: if_splits sum.splits)

lemma init_settings_err_count:
  "init_settings P env s = Inl s' \<or> init_settings P env s = Inr (s', b) \<Longrightarrow>
   err_count s' = err_count s"
  unfolding init_settings_def Let_def
  by (auto split: sum.splits dest!: init_humidity_err_count [OF disjI1] init_humidity_err_count [OF disjI2])

lemma init_err_count: "err_count (fst (init P E s)) = err_count s"
proof (cases "init_settings P (getenv E) (s\<lparr> enabled := True \<rparr>)")
  case (Inl s')
  then have "err_count s' = err_count s"
    using init_settings_err_count [of P "getenv E" "s\<lparr> enabled := True \<rparr>" s'] by simp
  with Inl show ?thesis by (simp add: init_def)
next
  case (Inr p)
  obtain s' b where p: "p = (s', b)" by (cases p)
  with Inr have "err_count s' = err_count s"
    using init_settings_err_count [of P "getenv E" "s\<lparr> enabled := True \<rparr>" s' b] by simp
  with Inr p show ?thesis by (simp add: init_def split: option.splits)
qed

text \<open>
  How one call of \<^verbatim>\<open>process()\<close> changes the error count.
\<close>

lemma process_err_count:
  "err_count (fst (process P E s)) =
     err_count s + (if enabled s \<and> due P E s \<and> primary_failed P E s then 1 else 0)"
proof (cases "enabled s")
  case False
  then show ?thesis by (simp add: process_def init_err_count)
next
  case True
  show ?thesis
  proof (cases "due P E s")
    case False
    with True show ?thesis by (simp add: process_not_due)
  next
    case d: True
    let ?s1 = "s\<lparr> next_poll := float_add P (monotonic E) (poll_s s) \<rparr>"
    show ?thesis
    proof (cases "primary_failed P E s")
      case True
      then have "primary_failed P E ?s1" by (simp add: primary_failed_next_poll)
      from process_primary_failed [OF this, of "monotonic E"] True \<open>enabled s\<close> d
      show ?thesis by (simp add: process_due process_humidity_frame)
    next
      case False
      then have "\<not> primary_failed P E ?s1" by (simp add: primary_failed_next_poll)
      from process_primary_ok [OF this, of "monotonic E"] False \<open>enabled s\<close> d
      show ?thesis by (auto simp add: process_due process_humidity_frame)
    qed
  qed
qed

lemma get_status_errors:
  "at_path (get_status P s) [''errors''] = Some (JInt (err_count s)) \<and>
   at_path (get_status P s) [''humidity'', ''errors''] = None \<and>
   at_path (get_status P s) [''humidity'', ''ok''] = Some (JBool (last_hum_ok s))"
  by (simp add: get_status_def member_of_def)

text \<open>
  C10. In a due call in which the humidity attempt fails, the error count changes only by
  what the primary attempt adds, the stored humidity raw and scaled values are those
  before the call and the humidity ok flag is false. In every call the error count grows
  by one exactly when the call is due, the poller enabled and the primary attempt fails:
  it counts primary failures only. The status document shows that count under
  \<^verbatim>\<open>errors\<close>, and its \<^verbatim>\<open>humidity\<close> object has no \<^verbatim>\<open>errors\<close> entry.
\<close>

theorem humidity_failure_frame:
  "(enabled s \<and> due P E s \<and> hum_enable s \<and> humidity_failed P E s \<longrightarrow>
      err_count (fst (process P E s)) = err_count s + (if primary_failed P E s then 1 else 0) \<and>
      last_hum_raw (fst (process P E s)) = last_hum_raw s \<and>
      last_hum (fst (process P E s)) = last_hum s \<and>
      \<not> last_hum_ok (fst (process P E s))) \<and>
   err_count (fst (process P E s)) =
     err_count s + (if enabled s \<and> due P E s \<and> primary_failed P E s then 1 else 0) \<and>
   at_path (get_status P s) [''errors''] = Some (JInt (err_count s)) \<and>
   at_path (get_status P s) [''humidity'', ''errors''] = None \<and>
   at_path (get_status P s) [''humidity'', ''ok''] = Some (JBool (last_hum_ok s))"
proof -
  let ?s1 = "s\<lparr> next_poll := float_add P (monotonic E) (poll_s s) \<rparr>"
  let ?s2 = "fst (process_primary P E (monotonic E) ?s1)"
  have "last_hum_raw (fst (process P E s)) = last_hum_raw s \<and>
        last_hum (fst (process P E s)) = last_hum s \<and>
        \<not> last_hum_ok (fst (process P E s))"
    if a: "enabled s \<and> due P E s \<and> hum_enable s \<and> humidity_failed P E s"
  proof -
    from a have p: "fst (process P E s) = fst (process_humidity P E ?s2)"
      by (simp add: process_due)
    from a show ?thesis
      by (simp add: p process_humidity_reading humidity_after_primary
          humidity_failed_after_primary process_primary_frame)
  qed
  with process_err_count [of P E s] get_status_errors [of P s] show ?thesis
    by (auto simp del: at_path.simps)
qed

text \<open>
  The instance: the primary read returns 240 and the humidity read raises.
\<close>

theorem humidity_failure_frame_witness:
  "enabled active_sensor \<and> due exact_ops (humidity_fails_at 0) active_sensor \<and>
   hum_enable active_sensor \<and> humidity_failed exact_ops (humidity_fails_at 0) active_sensor \<and>
   \<not> primary_failed exact_ops (humidity_fails_at 0) active_sensor \<and>
   err_count (fst (process exact_ops (humidity_fails_at 0) active_sensor)) = 0 \<and>
   last_hum_raw (fst (process exact_ops (humidity_fails_at 0) active_sensor)) = Some 612 \<and>
   last_hum (fst (process exact_ops (humidity_fails_at 0) active_sensor)) = Some (306 / 5) \<and>
   \<not> last_hum_ok (fst (process exact_ops (humidity_fails_at 0) active_sensor))"
proof -
  have h: "enabled active_sensor" "due exact_ops (humidity_fails_at 0) active_sensor"
    "hum_enable active_sensor" "humidity_failed exact_ops (humidity_fails_at 0) active_sensor"
    "\<not> primary_failed exact_ops (humidity_fails_at 0) active_sensor"
    by (simp_all add: active_sensor_def initial_sensor_def humidity_fails_at_def exact_ops_def
        due_def primary_failed_def humidity_failed_def primary_attempt_def
        humidity_attempt_def read_registers_def decode_int16_first)
  have v: "err_count active_sensor = 0"
    "last_hum active_sensor = Some (306 / 5)" "last_hum_raw active_sensor = Some 612"
    by (simp_all add: active_sensor_def initial_sensor_def exact_ops_def)
  from humidity_failure_frame [of active_sensor exact_ops "humidity_fails_at 0"] h v
  show ?thesis by auto
qed

text \<open>
  Once \<^verbatim>\<open>_enabled\<close> is true and \<^verbatim>\<open>_serial\<close> is \<^verbatim>\<open>None\<close>, every call of
  \<^verbatim>\<open>process()\<close> leaves them so and does nothing on the bus (the constructor is not
  called again), and every due call adds one to the error count.
\<close>

lemma stuck_without_serial:
  assumes "enabled s" and "serial s = None"
  shows "enabled (fst (process P E s)) \<and> serial (fst (process P E s)) = None \<and>
         snd (process P E s) = [] \<and>
         err_count (fst (process P E s)) = err_count s + (if due P E s then 1 else 0)"
proof (cases "due P E s")
  case False
  with assms show ?thesis by (simp add: process_not_due)
next
  case True
  let ?s1 = "s\<lparr> next_poll := float_add P (monotonic E) (poll_s s) \<rparr>"
  have f: "primary_failed P E s"
    using assms(2) by (simp add: primary_failed_def primary_attempt_def read_registers_def)
  have e1: "snd (process_primary P E (monotonic E) ?s1) = []"
    using assms(2) by (simp add: process_primary_def primary_attempt_def read_registers_def)
  have e2: "snd (process_humidity P E t) = []" if "serial t = None" for t
    using that by (simp add: process_humidity_def humidity_attempt_def read_registers_def)
  have "serial (fst (process_primary P E (monotonic E) ?s1)) = None"
    using assms(2) by (simp add: process_primary_frame)
  from e2 [OF this] e1 assms True f show ?thesis
    by (simp add: process_events_due process_due_next_poll process_err_count)
qed

text \<open>
  C2, at the failing input. The settings enable the poller; the first call of
  \<^verbatim>\<open>process()\<close> runs \<^verbatim>\<open>_init()\<close>, whose \<^verbatim>\<open>Serial(...)\<close> raises; at the second
  call the constructor would succeed. The code leaves \<^verbatim>\<open>_enabled\<close> true after the
  failure, so the second call does not run \<^verbatim>\<open>_init()\<close>: the port is opened once in
  all, \<^verbatim>\<open>_serial\<close> is still \<^verbatim>\<open>None\<close>, and the read attempted on it has been counted
  as a read error.
\<close>

theorem init_failure_never_retried:
  "enabled (fst (process_calls exact_ops [ctor_fails, ctor_would_succeed] (initial_sensor exact_ops))) \<and>
   serial (fst (process_calls exact_ops [ctor_fails, ctor_would_succeed] (initial_sensor exact_ops))) = None \<and>
   err_count (fst (process_calls exact_ops [ctor_fails, ctor_would_succeed] (initial_sensor exact_ops))) = 1 \<and>
   snd (process_calls exact_ops [ctor_fails, ctor_would_succeed] (initial_sensor exact_ops)) = [Open_serial 9600]"
  by code_simp

section \<open>The main scheduler's iterations\<close>

lemma main_tick_caught:
  assumes "all_caught E"
  shows "main_tick P E st =
           ([Feed_watchdog, Modbus_process] @ printed (modbus_step E) @
            [Web_process, Sensor_process] @ fst (blink_and_feed P E st),
            Continue (snd (blink_and_feed P E st)))"
proof -
  from assms have m: "modbus_step E = Returns \<or> (\<exists>e. modbus_step E = Raises (Exception e))"
    and w: "web_step E = Returns \<or> (\<exists>e. web_step E = Raises (Exception e))"
    and r: "sensor_step E = Returns \<or> (\<exists>e. sensor_step E = Raises (Exception e))"
    by (auto simp add: all_caught_def caught_def split: step_result.splits raised.splits)
  from m w r show ?thesis
    by (auto simp add: main_tick_def printed_def split: prod.splits)
qed

lemma blink_events:
  "filter scheduled (fst (blink_and_feed P E st)) = [Feed_watchdog]"
  by (simp add: blink_and_feed_def scheduled_def)

lemma printed_not_scheduled: "filter scheduled (printed m) = []"
  by (simp add: printed_def scheduled_def split: step_result.splits raised.splits)

lemma main_loop_caught:
  "list_all all_caught Es \<Longrightarrow>
   (\<exists>st'. snd (main_loop P Es st) = Continue st') \<and>
   filter scheduled (fst (main_loop P Es st)) =
     concat (replicate (length Es)
       [Feed_watchdog, Modbus_process, Web_process, Sensor_process, Feed_watchdog])"
proof (induction Es arbitrary: st)
  case Nil
  then show ?case by simp
next
  case (Cons E Es)
  then have c: "all_caught E" and cs: "list_all all_caught Es" by simp_all
  let ?st' = "snd (blink_and_feed P E st)"
  from Cons.IH [OF cs, of ?st'] obtain st'' where
    e: "snd (main_loop P Es ?st') = Continue st''"
    and f: "filter scheduled (fst (main_loop P Es ?st')) =
       concat (replicate (length Es)
         [Feed_watchdog, Modbus_process, Web_process, Sensor_process, Feed_watchdog])"
    by blast
  obtain ev r where l: "main_loop P Es ?st' = (ev, r)" by (cases "main_loop P Es ?st'")
  with e f show ?case
    by (simp add: main_tick_caught [OF c] blink_events printed_not_scheduled)
       (simp add: scheduled_def)
qed

text \<open>
  C1, as the code has it. When each of the three steps returns or raises an exception of
  class \<^verbatim>\<open>Exception\<close>, an iteration is, in this order: feed, Modbus step (with a
  print when it raised), web step, sensor step, the heartbeat, feed; and the loop goes on.
  The heartbeat toggles the indicator and stores a fresh clock reading when
  \<^verbatim>\<open>time.monotonic() - timestamp >= 0.5\<close>, and does nothing otherwise. Over any
  number of such iterations the loop is still running and the feeds and steps are the
  fixed sequence repeated once per iteration. A \<^verbatim>\<open>KeyboardInterrupt\<close> raised by the
  Modbus step is caught by the handler that prints and leaves the loop.
\<close>

theorem tick_order:
  "(all_caught E \<longrightarrow>
      main_tick P E st =
        ([Feed_watchdog, Modbus_process] @ printed (modbus_step E) @
         [Web_process, Sensor_process] @ fst (blink_and_feed P E st),
         Continue (snd (blink_and_feed P E st)))) \<and>
   (float_le P (float_lit P (1 / 2)) (float_sub P (clock_compared E) (timestamp st)) \<longrightarrow>
      blink_and_feed P E st =
        ([Toggle_led, Feed_watchdog], st\<lparr> timestamp := clock_stored E, led := \<not> led st \<rparr>)) \<and>
   (\<not> float_le P (float_lit P (1 / 2)) (float_sub P (clock_compared E) (timestamp st)) \<longrightarrow>
      blink_and_feed P E st = ([Feed_watchdog], st)) \<and>
   (list_all all_caught Es \<longrightarrow>
      (\<exists>st'. snd (main_loop P Es st) = Continue st') \<and>
      filter scheduled (fst (main_loop P Es st)) =
        concat (replicate (length Es)
          [Feed_watchdog, Modbus_process, Web_process, Sensor_process, Feed_watchdog])) \<and>
   (modbus_step E = Raises KeyboardInterrupt \<longrightarrow>
      main_tick P E st = ([Feed_watchdog, Modbus_process, Print_stopping], Break))"
  using main_tick_caught [of E P st] main_loop_caught [of Es P st]
  by (simp add: blink_and_feed_def main_tick_def)

text \<open>
  The instance: an iteration in which all three steps raise, followed by a quiet one.
\<close>

theorem tick_order_witness:
  "all_caught failing_tick \<and> list_all all_caught [failing_tick, quiet_tick] \<and>
   float_le exact_ops (float_lit exact_ops (1 / 2))
     (float_sub exact_ops (clock_compared failing_tick) (timestamp main_start)) \<and>
   main_tick exact_ops failing_tick main_start =
     ([Feed_watchdog, Modbus_process, Print_exception OSError, Web_process, Sensor_process,
       Toggle_led, Feed_watchdog],
      Continue \<lparr> timestamp = 5 / 4, led = True \<rparr>) \<and>
   \<not> float_le exact_ops (float_lit exact_ops (1 / 2))
     (float_sub exact_ops (clock_compared quiet_tick) (5 / 4)) \<and>
   blink_and_feed exact_ops quiet_tick \<lparr> timestamp = 5 / 4, led = True \<rparr> =
     ([Feed_watchdog], \<lparr> timestamp = 5 / 4, led = True \<rparr>) \<and>
   filter scheduled (fst (main_loop exact_ops [failing_tick, quiet_tick] main_start)) =
     [Feed_watchdog, Modbus_process, Web_process, Sensor_process, Feed_watchdog,
      Feed_watchdog, Modbus_process, Web_process, Sensor_process, Feed_watchdog] \<and>
   modbus_step interrupted_tick = Raises KeyboardInterrupt \<and>
   main_tick exact_ops interrupted_tick main_start =
     ([Feed_watchdog, Modbus_process, Print_stopping], Break)"
proof -
  have h: "all_caught failing_tick" "list_all all_caught [failing_tick, quiet_tick]"
    "float_le exact_ops (float_lit exact_ops (1 / 2))
       (float_sub exact_ops (clock_compared failing_tick) (timestamp main_start))"
    "\<not> float_le exact_ops (float_lit exact_ops (1 / 2))
       (float_sub exact_ops (clock_compared quiet_tick) (5 / 4))"
    "modbus_step interrupted_tick = Raises KeyboardInterrupt"
    by (simp_all add: all_caught_def caught_def failing_tick_def quiet_tick_def main_start_def
        interrupted_tick_def exact_ops_def)
  have v: "printed (modbus_step failing_tick) = [Print_exception OSError]"
    "clock_stored failing_tick = 5 / 4" "led main_start = False"
    "main_start\<lparr> timestamp := 5 / 4, led := True \<rparr> = \<lparr> timestamp = 5 / 4, led = True \<rparr>"
    by (simp_all add: printed_def failing_tick_def main_start_def)
  from tick_order [of failing_tick exact_ops main_start "[failing_tick, quiet_tick]"]
    tick_order [of quiet_tick exact_ops "\<lparr> timestamp = 5 / 4, led = True \<rparr>" "[]"]
    tick_order [of interrupted_tick exact_ops main_start "[]"] h v
  show ?thesis by (simp del: main_loop.simps)
qed

text \<open>
  C1 as the claim states it fails: when the Modbus step raises
  \<^verbatim>\<open>KeyboardInterrupt\<close> the iteration ends after that step, without the web step, the
  sensor step or the second feed, and no later iteration runs.
\<close>

theorem keyboard_interrupt_counterexample:
  "main_tick exact_ops interrupted_tick main_start =
     ([Feed_watchdog, Modbus_process, Print_stopping], Break) \<and>
   main_loop exact_ops [interrupted_tick, quiet_tick] main_start =
     ([Feed_watchdog, Modbus_process, Print_stopping], Break)"
  by (simp add: main_tick_def interrupted_tick_def)

section \<open>The web control surface\<close>

lemma toggle_output_twice: "toggles_back (toggle_output n addr) n addr w"
  by (simp add: toggles_back_def toggle_output_def no_failure_def coil_of_def Let_def)

text \<open>
  C7. For each of the four outputs and every starting state, with nothing raising: the
  route inverts the output and stores the mirroring value in the output's coil, and a
  second call restores the output, the coil mirroring it again.
\<close>

theorem toggle_twice_restores:
  "toggles_back (do0_toggle A) 0 (DO0_ADD A) w \<and>
   toggles_back (do1_toggle A) 1 (DO1_ADD A) w \<and>
   toggles_back (do2_toggle A) 2 (DO2_ADD A) w \<and>
   toggles_back (do3_toggle A) 3 (DO3_ADD A) w"
proof -
  have "do0_toggle A = toggle_output 0 (DO0_ADD A)" "do1_toggle A = toggle_output 1 (DO1_ADD A)"
    "do2_toggle A = toggle_output 2 (DO2_ADD A)" "do3_toggle A = toggle_output 3 (DO3_ADD A)"
    by (simp_all add: fun_eq_iff do0_toggle_def do1_toggle_def do2_toggle_def do3_toggle_def)
  then show ?thesis by (simp add: toggle_output_twice)
qed

text \<open>
  The instance: output 2, off at the start, is on with coil value 1 after one call and off
  with coil value 0 after two.
\<close>

theorem toggle_twice_restores_witness:
  "dout (fst (do2_toggle bench_addresses no_failure outputs_off)) 2 \<and>
   coil (fst (do2_toggle bench_addresses no_failure outputs_off)) 102 = Some 1 \<and>
   \<not> dout (fst (do2_toggle bench_addresses no_failure
                  (fst (do2_toggle bench_addresses no_failure outputs_off)))) 2 \<and>
   coil (fst (do2_toggle bench_addresses no_failure
                  (fst (do2_toggle bench_addresses no_failure outputs_off)))) 102 = Some 0"
proof -
  have v: "DO2_ADD bench_addresses = 102" "\<not> dout outputs_off 2"
    by (simp_all add: bench_addresses_def outputs_off_def)
  from toggle_twice_restores [of bench_addresses outputs_off] v
  show ?thesis by (simp add: toggles_back_def Let_def coil_of_def)
qed

lemma int_item_Inr: "is_ok r \<Longrightarrow> int_item r = Inr (JInt (projr r))"
  by (cases r) (simp_all add: is_ok_def int_item_def)

lemma counter_item_Inr:
  "is_ok (din_or_count H k) \<Longrightarrow>
   counter_item H k =
     Inr (case counter_count H k of None \<Rightarrow> JNull | Some c \<Rightarrow> JInt (projr c))"
  by (cases "counter_count H k"; cases "the (counter_count H k)")
     (simp_all add: is_ok_def din_or_count_def counter_item_def)

lemma analog_pair_fields: "analog_pair rd = (pair_field rd 0, pair_field rd 1)"
  by (cases "rd 0"; cases "rd 1") (simp_all add: analog_pair_def pair_field_def is_ok_def)

text \<open>
  The whole document, when the reads outside any \<^verbatim>\<open>try\<close> return.
\<close>

lemma snapshot_doc:
  assumes "unguarded_reads_ok H"
  shows "read_status P H s =
    Inr (JObj
      [(''device'',
          JObj
           [(''model'', JStr ''IRIV-IOC''),
            (''hostname'', opt_json JStr (hostname H)),
            (''mac'', eth_field JStr pretty_mac H),
            (''ip'', eth_field JStr pretty_ip H),
            (''link_up'', eth_field JBool link_status H),
            (''uptime_seconds'', JInt (float_int P (uptime_clock H))),
            (''uptime_hms'', JStr (fmt_uptime (float_int P (uptime_clock H)))),
            (''cpu_temp_c'', guarded JFloat (cpu_temperature H)),
            (''supply_mv'', guarded JInt (supply_voltage H))]),
       (''io'',
          JObj
           [(''din'',
               JObj
                [(''DI0'', JInt (projr (din_value H 0))),
                 (''DI1'', JInt (projr (din_or_count H 1))),
                 (''DI2'', JInt (projr (din_value H 2))),
                 (''DI3'', JInt (projr (din_or_count H 3))),
                 (''DI4'', JInt (projr (din_value H 4))),
                 (''DI5'', JInt (projr (din_or_count H 5))),
                 (''DI6'', JInt (projr (din_value H 6))),
                 (''DI7'', JInt (projr (din_or_count H 7))),
                 (''DI8'', JInt (projr (din_value H 8))),
                 (''DI9'', JInt (projr (din_or_count H 9))),
                 (''DI10'', JInt (projr (din_value H 10)))]),
            (''dout'',
               JObj
                [(''DO0'', JInt (projr (dout_value H 0))),
                 (''DO1'', JInt (projr (dout_value H 1))),
                 (''DO2'', JInt (projr (dout_value H 2))),
                 (''DO3'', JInt (projr (dout_value H 3)))]),
            (''counters'',
               JObj
                [(''COUNT1'', case counter_count H 1 of None \<Rightarrow> JNull | Some c \<Rightarrow> JInt (projr c)),
                 (''COUNT3'', case counter_count H 3 of None \<Rightarrow> JNull | Some c \<Rightarrow> JInt (projr c)),
                 (''COUNT5'', case counter_count H 5 of None \<Rightarrow> JNull | Some c \<Rightarrow> JInt (projr c)),
                 (''COUNT7'', case counter_count H 7 of None \<Rightarrow> JNull | Some c \<Rightarrow> JInt (projr c)),
                 (''COUNT9'', case counter_count H 9 of None \<Rightarrow> JNull | Some c \<Rightarrow> JInt (projr c))]),
            (''an_voltage_mv'',
               JObj [(''AN0'', pair_field (an_read_voltage_mv H) 0),
                     (''AN1'', pair_field (an_read_voltage_mv H) 1)]),
            (''an_current_ua'',
               JObj [(''AN0'', pair_field (an_read_current_ua H) 0),
                     (''AN1'', pair_field (an_read_current_ua H) 1)])]),
       (''sensors'', JObj [(''rs485'', get_status P s)])])"
proof -
  from assms have
    d: "is_ok (din_value H 0)" "is_ok (din_value H 2)" "is_ok (din_value H 4)"
       "is_ok (din_value H 6)" "is_ok (din_value H 8)" "is_ok (din_value H 10)"
    and c: "is_ok (din_or_count H 1)" "is_ok (din_or_count H 3)" "is_ok (din_or_count H 5)"
       "is_ok (din_or_count H 7)" "is_ok (din_or_count H 9)"
    and o: "is_ok (dout_value H 0)" "is_ok (dout_value H 1)" "is_ok (dout_value H 2)"
       "is_ok (dout_value H 3)"
    by (simp_all add: unguarded_reads_ok_def)
  from d c o show ?thesis
    unfolding read_status_def Let_def
    by (simp add: int_item_Inr counter_item_Inr analog_pair_fields eth_field_def)
qed

text \<open>
  C6, as the code has it. When the reads made outside any \<^verbatim>\<open>try\<close> return, the
  snapshot is a complete document. Each of MAC, IP, link state, CPU temperature and
  supply voltage is null exactly when its own read raised (or there is no network
  interface) and is the value read otherwise, whatever the other reads did; the two
  channels of an analog quantity are both null as soon as either of its reads raised;
  every other field is the value read.
\<close>

theorem snapshot_guarded_fields:
  "unguarded_reads_ok H \<longrightarrow>
     is_ok (read_status P H s) \<and>
     at_path (projr (read_status P H s)) [''device'', ''mac''] =
       Some (eth_field JStr pretty_mac H) \<and>
     at_path (projr (read_status P H s)) [''device'', ''ip''] =
       Some (eth_field JStr pretty_ip H) \<and>
     at_path (projr (read_status P H s)) [''device'', ''link_up''] =
       Some (eth_field JBool link_status H) \<and>
     at_path (projr (read_status P H s)) [''device'', ''cpu_temp_c''] =
       Some (guarded JFloat (cpu_temperature H)) \<and>
     at_path (projr (read_status P H s)) [''device'', ''supply_mv''] =
       Some (guarded JInt (supply_voltage H)) \<and>
     at_path (projr (read_status P H s)) [''device'', ''model''] = Some (JStr ''IRIV-IOC'') \<and>
     at_path (projr (read_status P H s)) [''device'', ''hostname''] =
       Some (opt_json JStr (hostname H)) \<and>
     at_path (projr (read_status P H s)) [''device'', ''uptime_seconds''] =
       Some (JInt (float_int P (uptime_clock H))) \<and>
     at_path (projr (read_status P H s)) [''device'', ''uptime_hms''] =
       Some (JStr (fmt_uptime (float_int P (uptime_clock H)))) \<and>
     at_path (projr (read_status P H s)) [''io'', ''an_voltage_mv'', ''AN0''] =
       Some (pair_field (an_read_voltage_mv H) 0) \<and>
     at_path (projr (read_status P H s)) [''io'', ''an_voltage_mv'', ''AN1''] =
       Some (pair_field (an_read_voltage_mv H) 1) \<and>
     at_path (projr (read_status P H s)) [''io'', ''an_current_ua'', ''AN0''] =
       Some (pair_field (an_read_current_ua H) 0) \<and>
     at_path (projr (read_status P H s)) [''io'', ''an_current_ua'', ''AN1''] =
       Some (pair_field (an_read_current_ua H) 1) \<and>
     at_path (projr (read_status P H s)) [''io'', ''din''] =
       Some (JObj
         [(''DI0'', JInt (projr (din_value H 0))),
          (''DI1'', JInt (projr (din_or_count H 1))),
          (''DI2'', JInt (projr (din_value H 2))),
          (''DI3'', JInt (projr (din_or_count H 3))),
          (''DI4'', JInt (projr (din_value H 4))),
          (''DI5'', JInt (projr (din_or_count H 5))),
          (''DI6'', JInt (projr (din_value H 6))),
          (''DI7'', JInt (projr (din_or_count H 7))),
          (''DI8'', JInt (projr (din_value H 8))),
          (''DI9'', JInt (projr (din_or_count H 9))),
          (''DI10'', JInt (projr (din_value H 10)))]) \<and>
     at_path (projr (read_status P H s)) [''io'', ''dout''] =
       Some (JObj
         [(''DO0'', JInt (projr (dout_value H 0))),
          (''DO1'', JInt (projr (dout_value H 1))),
          (''DO2'', JInt (projr (dout_value H 2))),
          (''DO3'', JInt (projr (dout_value H 3)))]) \<and>
     at_path (projr (read_status P H s)) [''io'', ''counters''] =
       Some (JObj
         [(''COUNT1'', case counter_count H 1 of None \<Rightarrow> JNull | Some c \<Rightarrow> JInt (projr c)),
          (''COUNT3'', case counter_count H 3 of None \<Rightarrow> JNull | Some c \<Rightarrow> JInt (projr c)),
          (''COUNT5'', case counter_count H 5 of None \<Rightarrow> JNull | Some c \<Rightarrow> JInt (projr c)),
          (''COUNT7'', case counter_count H 7 of None \<Rightarrow> JNull | Some c \<Rightarrow> JInt (projr c)),
          (''COUNT9'', case counter_count H 9 of None \<Rightarrow> JNull | Some c \<Rightarrow> JInt (projr c))]) \<and>
     at_path (projr (read_status P H s)) [''sensors'', ''rs485''] = Some (get_status P s)"
  by (simp add: snapshot_doc is_ok_def member_of_def)

text \<open>
  The instance: the MAC address read raises; the MAC is null and the other fields are
  populated.
\<close>

theorem snapshot_guarded_fields_witness:
  "unguarded_reads_ok mac_unavailable \<and>
   is_ok (read_status exact_ops mac_unavailable (initial_sensor exact_ops)) \<and>
   at_path (projr (read_status exact_ops mac_unavailable (initial_sensor exact_ops)))
     [''device'', ''mac''] = Some JNull \<and>
   at_path (projr (read_status exact_ops mac_unavailable (initial_sensor exact_ops)))
     [''device'', ''ip''] = Some (JStr ''192.168.1.50'') \<and>
   at_path (projr (read_status exact_ops mac_unavailable (initial_sensor exact_ops)))
     [''device'', ''link_up''] = Some (JBool True) \<and>
   at_path (projr (read_status exact_ops mac_unavailable (initial_sensor exact_ops)))
     [''device'', ''cpu_temp_c''] = Some (JFloat (61 / 2)) \<and>
   at_path (projr (read_status exact_ops mac_unavailable (initial_sensor exact_ops)))
     [''device'', ''supply_mv''] = Some (JInt 24000) \<and>
   at_path (projr (read_status exact_ops mac_unavailable (initial_sensor exact_ops)))
     [''io'', ''an_voltage_mv'', ''AN0''] = Some (JInt 5000) \<and>
   at_path (projr (read_status exact_ops mac_unavailable (initial_sensor exact_ops)))
     [''io'', ''an_current_ua'', ''AN1''] = Some (JInt 4000) \<and>
   at_path (projr (read_status exact_ops mac_unavailable (initial_sensor exact_ops)))
     [''io'', ''dout''] =
       Some (JObj [(''DO0'', JInt 1), (''DO1'', JInt 1), (''DO2'', JInt 1), (''DO3'', JInt 1)])"
proof -
  have h: "unguarded_reads_ok mac_unavailable"
    by (simp add: unguarded_reads_ok_def mac_unavailable_def healthy_board_def is_ok_def
        din_or_count_def)
  have v: "eth_field JStr pretty_mac mac_unavailable = (JNull :: rat json)"
    "eth_field JStr pretty_ip mac_unavailable = (JStr ''192.168.1.50'' :: rat json)"
    "eth_field JBool link_status mac_unavailable = (JBool True :: rat json)"
    "guarded JFloat (cpu_temperature mac_unavailable) = JFloat (61 / 2)"
    "guarded JInt (supply_voltage mac_unavailable) = (JInt 24000 :: rat json)"
    "pair_field (an_read_voltage_mv mac_unavailable) 0 = (JInt 5000 :: rat json)"
    "pair_field (an_read_current_ua mac_unavailable) 1 = (JInt 4000 :: rat json)"
    "dout_value mac_unavailable = (\<lambda>k. Inr 1)"
    by (simp_all add: eth_field_def guarded_def pair_field_def is_ok_def mac_unavailable_def
        healthy_board_def)
  from snapshot_guarded_fields [of mac_unavailable exact_ops "initial_sensor exact_ops"] h v
  show ?thesis by (simp del: at_path.simps)
qed

text \<open>
  C6 as the claim states it fails: when only the voltage read of channel 1 raises, the
  voltage of channel 0, whose read returned 5000, is null too; and when the read of
  input 4 raises, the exception leaves \<^verbatim>\<open>_read_status\<close> and no document is returned.
\<close>

theorem snapshot_unguarded_counterexample:
  "an_read_voltage_mv voltage1_fails 0 = Inr 5000 \<and>
   at_path (projr (read_status exact_ops voltage1_fails (initial_sensor exact_ops)))
     [''io'', ''an_voltage_mv'', ''AN0''] = Some JNull \<and>
   read_status exact_ops din4_fails (initial_sensor exact_ops) = Inl OSError"
proof -
  have "unguarded_reads_ok voltage1_fails"
    by (simp add: unguarded_reads_ok_def voltage1_fails_def healthy_board_def is_ok_def
        din_or_count_def)
  then have "at_path (projr (read_status exact_ops voltage1_fails (initial_sensor exact_ops)))
     [''io'', ''an_voltage_mv'', ''AN0''] = Some (pair_field (an_read_voltage_mv voltage1_fails) 0)"
    by (simp add: snapshot_doc member_of_def)
  moreover have "pair_field (an_read_voltage_mv voltage1_fails) 0 = (JNull :: rat json)"
    by (simp add: pair_field_def voltage1_fails_def healthy_board_def is_ok_def)
  moreover have "read_status exact_ops din4_fails (initial_sensor exact_ops) = Inl OSError"
    by (simp add: read_status_def din4_fails_def healthy_board_def int_item_def din_or_count_def)
  moreover have "an_read_voltage_mv voltage1_fails 0 = Inr 5000"
    by (simp add: voltage1_fails_def healthy_board_def)
  ultimately show ?thesis by simp
qed

end
